theory Spec2Isabelle
  imports Main "HOL-Library.Sublist"
begin

section \<open>JavaScript values and effects\<close>

text \<open>
  A value thrown inside \<open>run\<close>: an instance of \<open>Error\<close> with its message, or any other
  value (a string, an object, a rejected promise's reason that is not an \<open>Error\<close>).
\<close>

datatype thrown = Error string | NonError string

text \<open>The three functionalities of \<open>constants.Functionality\<close> used by the actions.\<close>

datatype Functionality = helmChartValidation | helmChartDependencyUpdate | helmChartTest

text \<open>
  The captured outcome of the external tool: \<open>{ exitCode, stdout, stderr }\<close>.
\<close>

record ExecOutput =
  exitCode :: int
  stdout :: string
  stderr :: string

text \<open>
  One call of the chart-management helper:
  \<open>template(dir, getHelmValueFiles(dir), helmOptions)\<close>, \<open>DependencyUpdate(dir)\<close>,
  \<open>unittest(dir, chartOutputDir, options)\<close>.
\<close>

datatype tool_call =
    Template string string "string list"
  | DependencyUpdate string
  | Unittest string string "string list"

text \<open>A table row \<open>[item, icon, listingYamlRelativePath]\<close>.\<close>

type_synonym row = "string \<times> string \<times> string"

text \<open>What has been added to \<open>core.summary\<close> when \<open>write()\<close> is called.\<close>

datatype summary_item =
    Heading string
  | Raw string
  | Table "row list"
  | Break
  | Details string string

text \<open>
  The observable effects of a run, in the order they happen:
  \<^item> \<open>Gate item\<close>: \<open>utils.isFunctionEnabled\<close> was called with the directory of chart \<open>item\<close>;
  \<^item> \<open>Invoke c\<close>: the helper call \<open>c\<close> was started;
  \<^item> \<open>Info s\<close>: \<open>core.info(s)\<close>;
  \<^item> \<open>Write doc\<close>: \<open>core.summary.write()\<close> succeeded with the buffer \<open>doc\<close>;
  \<^item> \<open>SetFailed m\<close>: \<open>core.setFailed(m)\<close>;
  \<^item> \<open>Unhandled t\<close>: a promise that nobody awaits was rejected with \<open>t\<close>.
\<close>

datatype event =
    Gate string
  | Invoke tool_call
  | Info string
  | Write "summary_item list"
  | SetFailed string
  | Unhandled thrown

text \<open>
  A step that has effects and either returns a value or throws: the events it caused and
  its outcome (\<open>Inl\<close> the thrown value).
\<close>

type_synonym 'a io = "event list \<times> (thrown + 'a)"

text \<open>
  The parsed listing document. \<open>listingKeys\<close> is \<open>Object.keys(doc.toJSON())\<close>, in that
  order; \<open>listingYamlDir\<close> and \<open>listingYamlRelativePath\<close> are what \<open>utils.unrapYamlbyKey\<close>
  reads under \<open>ListingYamlKeys.dir\<close> and \<open>ListingYamlKeys.relativePath\<close> of a chart's
  entry (\<open>path.parse\<close> of the directory is kept as the directory string);
  \<open>listingStringified\<close> is \<open>yaml.stringify(doc)\<close>.
\<close>

record Listing =
  listingKeys :: "string list"
  listingYamlDir :: "string \<Rightarrow> string"
  listingYamlRelativePath :: "string \<Rightarrow> string"
  listingStringified :: string

text \<open>
  Everything a run reads from outside: the process environment and action inputs, the
  shared helpers (which live in the shared package and are called, not defined, by the
  three actions), the external tool behind them, and the summary sink.
  \<^item> \<open>getListing ws\<close>: \<open>getListingFileContent(path.parse(ws))\<close> followed by \<open>yaml.parse\<close>;
  \<^item> \<open>detectChangedHelmCharts ws\<close>: the awaited set of changed charts, as the list of its
    elements, each once, in insertion order (so \<open>size\<close> is the length of the list);
  \<^item> \<open>readPipelineFeatureOptions dir f\<close>: \<open>None\<close> for \<open>false\<close>, otherwise the options
    document, read key by key as a truth value (\<open>None\<close> for an absent key);
  \<^item> \<open>tool c\<close>: how the helper call \<open>c\<close> settles, and \<open>settles_at c\<close> when it does
    (only the order of these times matters);
  \<^item> \<open>summary_write doc\<close>: whether \<open>core.summary.write()\<close> succeeds.
\<close>

record world =
  env_GITHUB_WORKSPACE :: "string option"
  env_INPUT_VALIDATE_CHANGED_ONLY :: "string option"
  input_parallel :: string
  getListing :: "string \<Rightarrow> thrown + Listing"
  detectChangedHelmCharts :: "string \<Rightarrow> thrown + string list"
  isFunctionEnabled :: "string \<Rightarrow> Functionality \<Rightarrow> bool"
  readPipelineFeatureOptions :: "string \<Rightarrow> Functionality \<Rightarrow> (string \<rightharpoonup> bool) option"
  getHelmValueFiles :: "string \<Rightarrow> string"
  tool :: "tool_call \<Rightarrow> thrown + ExecOutput"
  settles_at :: "tool_call \<Rightarrow> nat"
  summary_write :: "summary_item list \<Rightarrow> thrown + unit"

subsection \<open>Strings\<close>

text \<open>\<open>String(process.env[name])\<close>: an unset variable becomes the text \<open>undefined\<close>.\<close>

definition String_env :: "string option \<Rightarrow> string" where
  "String_env v = (case v of None \<Rightarrow> ''undefined'' | Some s \<Rightarrow> s)"

text \<open>\<open>toLowerCase()\<close>, on the letters \<open>A\<close> to \<open>Z\<close>.\<close>

definition lower_char :: "char \<Rightarrow> char" where
  "lower_char c =
     (let n = (of_char c :: nat)
      in if 65 \<le> n \<and> n \<le> 90 then ''abcdefghijklmnopqrstuvwxyz'' ! (n - 65) else c)"

definition toLowerCase :: "string \<Rightarrow> string" where
  "toLowerCase s = map lower_char s"

text \<open>\<open>xs.join(sep)\<close>.\<close>

fun join :: "string \<Rightarrow> string list \<Rightarrow> string" where
  "join sep [] = []"
| "join sep [x] = x"
| "join sep (x # y # ys) = x @ sep @ join sep (y # ys)"

text \<open>A number inside a template literal: its decimal digits.\<close>

definition digit_char :: "nat \<Rightarrow> char" where
  "digit_char d = ''0123456789'' ! (d mod 10)"

function show_nat :: "nat \<Rightarrow> string" where
  "show_nat n = (if n < 10 then [digit_char n] else show_nat (n div 10) @ [digit_char (n mod 10)])"
  by pat_completeness auto
termination
  by (relation "measure (\<lambda>n. n)") auto

declare show_nat.simps [simp del]

text \<open>\<open>path.join(a, b)\<close> on two plain segments.\<close>

definition path_join :: "string \<Rightarrow> string \<Rightarrow> string" where
  "path_join a b = a @ ''/'' @ b"

text \<open>The icons of the tables, as their UTF-8 bytes.\<close>

definition icon_check :: string where
  "icon_check = [CHR 0xE2, CHR 0x9C, CHR 0x85]"

definition icon_cross :: string where
  "icon_cross = [CHR 0xE2, CHR 0x9D, CHR 0x8C]"

definition icon_skip :: string where
  "icon_skip = [CHR 0xE2, CHR 0x8F, CHR 0xAD, CHR 0xEF, CHR 0xB8, CHR 0x8F]"

definition icon_disabled :: string where
  "icon_disabled = '':heavy_exclamation_mark:''"

definition newline :: string where
  "newline = [CHR 0x0A]"

subsection \<open>Parts of the shared package\<close>

text \<open>
  Modelled from the spec: \<open>constants.envvars.GITHUB_WORKSPACE\<close> is declared in the shared
  package, which is not part of the sources at hand; it is the name of the required
  workspace-root environment input.
\<close>

definition envvars_GITHUB_WORKSPACE :: string where
  "envvars_GITHUB_WORKSPACE = ''GITHUB_WORKSPACE''"

text \<open>
  Modelled from the spec: \<open>constants.HelmChartFiles.ciConfigYaml\<close> is declared in the
  shared package; it names the chart-local configuration file that can disable a
  functionality.
\<close>

definition ciConfigYaml :: string where
  "ciConfigYaml = ''.ci.config.yaml''"

text \<open>
  Modelled from the spec: \<open>utils.assertNullOrEmpty(input, msg)\<close> is defined in the shared
  package. It is the check of a required input, which fails when the input is missing or
  empty: it throws \<open>Error(msg)\<close> when the text it is given is empty, or is the text
  \<open>undefined\<close> as which a missing variable reaches it through \<open>String(...)\<close>, and returns
  otherwise.
\<close>

definition assertNullOrEmpty :: "string \<Rightarrow> string \<Rightarrow> thrown + unit" where
  "assertNullOrEmpty input msg =
     (if input = [] \<or> input = ''undefined'' then Inl (Error msg) else Inr ())"

text \<open>\<open>utils.unrapYamlbyKey(options, key, dflt)\<close> used as a condition.\<close>

definition option_set :: "(string \<rightharpoonup> bool) \<Rightarrow> string \<Rightarrow> bool \<Rightarrow> bool" where
  "option_set options key dflt = (case options key of None \<Rightarrow> dflt | Some b \<Rightarrow> b)"

subsection \<open>Promises\<close>

text \<open>
  \<open>Promise.all\<close> over tasks that have all been started: each task comes with the time at
  which it settles. When every task is fulfilled the result is the list of values in the
  order of the tasks; otherwise \<open>Promise.all\<close> rejects with the reason of the task that
  is rejected first (the earlier task on equal times).
\<close>

fun rejections :: "(nat \<times> (thrown + 'a)) list \<Rightarrow> (nat \<times> thrown) list" where
  "rejections [] = []"
| "rejections ((t, Inl e) # ps) = (t, e) # rejections ps"
| "rejections ((t, Inr v) # ps) = rejections ps"

fun fulfilled :: "(nat \<times> (thrown + 'a)) list \<Rightarrow> 'a list" where
  "fulfilled [] = []"
| "fulfilled ((t, Inl e) # ps) = fulfilled ps"
| "fulfilled ((t, Inr v) # ps) = v # fulfilled ps"

fun earliest :: "nat \<times> thrown \<Rightarrow> (nat \<times> thrown) list \<Rightarrow> thrown" where
  "earliest (t, e) [] = e"
| "earliest (t, e) ((t', e') # rs) =
     (if t' < t then earliest (t', e') rs else earliest (t, e) rs)"

definition Promise_all :: "(nat \<times> (thrown + 'a)) list \<Rightarrow> thrown + 'a list" where
  "Promise_all ps =
     (case rejections ps of [] \<Rightarrow> Inr (fulfilled ps) | r # rs \<Rightarrow> Inl (earliest r rs))"

text \<open>
  The handler of every \<open>run\<close>:
  \<open>catch (error) { if (error instanceof Error) core.setFailed(error.message) }\<close>.
\<close>

definition catch_handler :: "unit io \<Rightarrow> event list" where
  "catch_handler r =
     (case r of
        (es, Inl (Error m)) \<Rightarrow> es @ [SetFailed m]
      | (es, Inl (NonError v)) \<Rightarrow> es
      | (es, Inr u) \<Rightarrow> es)"

text \<open>
  Sequencing inside the \<open>try\<close> block: the second step runs only when the first has
  returned; a throw ends the block with the events so far.
\<close>

definition bind_io :: "'a io \<Rightarrow> ('a \<Rightarrow> 'b io) \<Rightarrow> 'b io" where
  "bind_io m f =
     (case m of
        (es, Inl t) \<Rightarrow> (es, Inl t)
      | (es, Inr a) \<Rightarrow> (case f a of (es', r) \<Rightarrow> (es @ es', r)))"

text \<open>A call of a helper that causes no event of its own, and a step that only logs.\<close>

definition call :: "thrown + 'a \<Rightarrow> 'a io" where
  "call r = ([], r)"

definition emit :: "event list \<Rightarrow> unit io" where
  "emit es = (es, Inr ())"

text \<open>\<open>await core.summary. ... .write()\<close>: the buffer is written, or the write throws.\<close>

definition await_write :: "world \<Rightarrow> summary_item list \<Rightarrow> unit io" where
  "await_write w doc =
     (case summary_write w doc of Inl t \<Rightarrow> ([], Inl t) | Inr u \<Rightarrow> ([Write doc], Inr ()))"

text \<open>Projections of a run's events.\<close>

fun invocations :: "event list \<Rightarrow> tool_call list" where
  "invocations [] = []"
| "invocations (Invoke c # es) = c # invocations es"
| "invocations (e # es) = invocations es"

fun gated :: "event list \<Rightarrow> string list" where
  "gated [] = []"
| "gated (Gate item # es) = item # gated es"
| "gated (e # es) = gated es"

fun written :: "event list \<Rightarrow> summary_item list list" where
  "written [] = []"
| "written (Write doc # es) = doc # written es"
| "written (e # es) = written es"

fun setFailed_calls :: "event list \<Rightarrow> string list" where
  "setFailed_calls [] = []"
| "setFailed_calls (SetFailed m # es) = m # setFailed_calls es"
| "setFailed_calls (e # es) = setFailed_calls es"

fun infos :: "event list \<Rightarrow> string list" where
  "infos [] = []"
| "infos (Info s # es) = s # infos es"
| "infos (e # es) = infos es"

text \<open>The tables of the summaries that were written.\<close>

fun doc_tables :: "summary_item list \<Rightarrow> row list list" where
  "doc_tables [] = []"
| "doc_tables (Table rows # items) = rows # doc_tables items"
| "doc_tables (i # items) = doc_tables items"

definition tables :: "event list \<Rightarrow> row list list" where
  "tables es = concat (map doc_tables (written es))"

text \<open>The directory a helper call works on.\<close>

fun call_dir :: "tool_call \<Rightarrow> string" where
  "call_dir (Template d v os) = d"
| "call_dir (DependencyUpdate d) = d"
| "call_dir (Unittest d out os) = d"

section \<open>Unit testing (helm-test)\<close>

datatype Status = passed | failed | skipped | disabled

record TestResult =
  chart :: string
  status :: Status
  reason :: "string option"
  relativePath :: string

text \<open>
  The classification at the end of \<open>processChart\<close>, once \<open>unittest\<close> has returned
  \<open>result\<close>.
\<close>

definition classify :: "string \<Rightarrow> string \<Rightarrow> ExecOutput \<Rightarrow> TestResult" where
  "classify item rel result =
     (if exitCode result = - 1 \<and> stderr result = ''No tests directory found'' then
        \<lparr>chart = item, status = skipped, reason = Some ''No tests directory'', relativePath = rel\<rparr>
      else if exitCode result = 0 then
        \<lparr>chart = item, status = passed, reason = None, relativePath = rel\<rparr>
      else
        \<lparr>chart = item, status = failed,
         reason = Some (if stderr result \<noteq> [] then stderr result
                        else if stdout result \<noteq> [] then stdout result
                        else ''Unknown error''),
         relativePath = rel\<rparr>)"

text \<open>The options \<open>processChart\<close> passes to \<open>unittest\<close>.\<close>

definition test_options :: "world \<Rightarrow> string \<Rightarrow> string list" where
  "test_options w d =
     (case readPipelineFeatureOptions w d helmChartTest of
        None \<Rightarrow> []
      | Some optionsDoc \<Rightarrow>
          (if option_set optionsDoc ''--update-snapshot'' False then [''--update-snapshot''] else []))"

definition unittest_call :: "world \<Rightarrow> Listing \<Rightarrow> string \<Rightarrow> string \<Rightarrow> tool_call" where
  "unittest_call w doc outputDir item =
     Unittest (listingYamlDir doc item) (path_join outputDir item)
       (test_options w (listingYamlDir doc item))"

text \<open>
  \<open>processChart\<close> up to its only \<open>await\<close>: the events of the synchronous part, and then
  either the result it returns at once (a disabled chart) or the helper call it waits for.
\<close>

definition processChart :: "world \<Rightarrow> Listing \<Rightarrow> string \<Rightarrow> string \<Rightarrow> TestResult io" where
  "processChart w doc outputDir item =
     (let d = listingYamlDir doc item; rel = listingYamlRelativePath doc item in
      if \<not> isFunctionEnabled w d helmChartTest then
        ([Gate item],
         Inr \<lparr>chart = item, status = disabled, reason = Some ''Disabled by .ci.config.yaml'',
              relativePath = rel\<rparr>)
      else
        (case tool w (unittest_call w doc outputDir item) of
           Inl t \<Rightarrow> ([Gate item, Invoke (unittest_call w doc outputDir item)], Inl t)
         | Inr result \<Rightarrow>
             ([Gate item, Invoke (unittest_call w doc outputDir item)],
              Inr (classify item rel result))))"

text \<open>When the promise of \<open>processChart\<close> settles: at once unless it waits for the tool.\<close>

definition processChart_settles :: "world \<Rightarrow> Listing \<Rightarrow> string \<Rightarrow> string \<Rightarrow> nat" where
  "processChart_settles w doc outputDir item =
     (if isFunctionEnabled w (listingYamlDir doc item) helmChartTest
      then settles_at w (unittest_call w doc outputDir item) else 0)"

text \<open>
  \<open>Promise.all(chartKeys.map(async (item) => await processChart(...)))\<close>: the synchronous
  part of every task runs in the order of the keys, then the tasks are awaited together.
\<close>

definition test_results :: "world \<Rightarrow> Listing \<Rightarrow> string \<Rightarrow> TestResult list io" where
  "test_results w doc outputDir =
     (concat (map (\<lambda>item. fst (processChart w doc outputDir item)) (listingKeys doc)),
      Promise_all (map (\<lambda>item. (processChart_settles w doc outputDir item,
                                 snd (processChart w doc outputDir item))) (listingKeys doc)))"

fun statusIcon :: "Status \<Rightarrow> string" where
  "statusIcon passed = icon_check"
| "statusIcon failed = icon_cross"
| "statusIcon skipped = icon_skip"
| "statusIcon disabled = icon_disabled"

definition test_tableRows :: "TestResult list \<Rightarrow> row list" where
  "test_tableRows results = map (\<lambda>result. (chart result, statusIcon (status result), relativePath result)) results"

definition failedResults :: "TestResult list \<Rightarrow> TestResult list" where
  "failedResults results = filter (\<lambda>r. status r = failed) results"

definition test_summary :: "nat \<Rightarrow> TestResult list \<Rightarrow> summary_item list" where
  "test_summary chartCount results =
     [Heading ''Helm Chart Test Results'',
      Raw (newline @ newline @ ''Processed '' @ show_nat chartCount @ '' chart(s).'' @ newline @ newline),
      Table (test_tableRows results),
      Break,
      Details ''Legend''
        (icon_check @ '' = Tests passed'' @ newline @
         icon_cross @ '' = Tests failed'' @ newline @
         icon_skip @ '' = Skipped (no tests directory)'' @ newline @
         '':heavy_exclamation_mark: = Disabled by '' @ ciConfigYaml)]"

definition test_log_summary :: "TestResult list \<Rightarrow> string" where
  "test_log_summary results =
     ''Summary: '' @ show_nat (length (filter (\<lambda>r. status r = passed) results)) @ '' passed, ''
       @ show_nat (length (failedResults results)) @ '' failed, ''
       @ show_nat (length (filter (\<lambda>r. status r = skipped) results)) @ '' skipped, ''
       @ show_nat (length (filter (\<lambda>r. status r = disabled) results)) @ '' disabled''"

text \<open>The end of \<open>run\<close>: \<open>core.setFailed\<close> when some result has failed.\<close>

definition test_verdict :: "TestResult list \<Rightarrow> event list" where
  "test_verdict results =
     (if length (failedResults results) > 0
      then [SetFailed (''Helm tests failed for: '' @ join '', '' (map chart (failedResults results)))]
      else [])"

text \<open>
  The \<open>try\<close> block of the unit-testing \<open>run\<close> up to the end of \<open>Promise.all\<close>: the
  number of charts and the collected results.
\<close>

definition test_collect :: "world \<Rightarrow> (nat \<times> TestResult list) io" where
  "test_collect w =
     (let GITHUB_WORKSPACE = String_env (env_GITHUB_WORKSPACE w) in
      bind_io (call (assertNullOrEmpty GITHUB_WORKSPACE
                       (''Missing env `'' @ envvars_GITHUB_WORKSPACE @ ''`!''))) (\<lambda>u.
      bind_io (call (getListing w GITHUB_WORKSPACE)) (\<lambda>doc.
      bind_io (emit [Info (''Processing '' @ show_nat (length (listingKeys doc))
                             @ '' chart(s) from listing.'')]) (\<lambda>u'.
      bind_io (test_results w doc (path_join GITHUB_WORKSPACE ''.helm-test-output'')) (\<lambda>results.
      ([], Inr (length (listingKeys doc), results)))))))"

text \<open>The rest of the \<open>try\<close> block: the summary, the log line and the verdict.\<close>

definition test_report :: "world \<Rightarrow> nat \<Rightarrow> TestResult list \<Rightarrow> unit io" where
  "test_report w chartCount results =
     bind_io (await_write w (test_summary chartCount results)) (\<lambda>u.
     emit (Info (test_log_summary results) # test_verdict results))"

definition test_body :: "world \<Rightarrow> unit io" where
  "test_body w = bind_io (test_collect w) (\<lambda>(chartCount, results). test_report w chartCount results)"

definition run_test :: "world \<Rightarrow> event list" where
  "run_test w = catch_handler (test_body w)"

section \<open>Dependency update\<close>

text \<open>
  The callback of the parallel branch,
  \<open>helmChartKeys.map(async (item) => { ... })\<close>, up to its \<open>await\<close>, with its outcome.
\<close>

definition update_task :: "world \<Rightarrow> Listing \<Rightarrow> string \<Rightarrow> row io" where
  "update_task w doc item =
     (let d = listingYamlDir doc item; rel = listingYamlRelativePath doc item in
      if isFunctionEnabled w d helmChartDependencyUpdate then
        (case tool w (DependencyUpdate d) of
           Inl t \<Rightarrow> ([Gate item, Invoke (DependencyUpdate d)], Inl t)
         | Inr out \<Rightarrow> ([Gate item, Invoke (DependencyUpdate d)], Inr (item, icon_check, rel)))
      else ([Gate item], Inr (item, icon_disabled, rel)))"

definition update_task_settles :: "world \<Rightarrow> Listing \<Rightarrow> string \<Rightarrow> nat" where
  "update_task_settles w doc item =
     (if isFunctionEnabled w (listingYamlDir doc item) helmChartDependencyUpdate
      then settles_at w (DependencyUpdate (listingYamlDir doc item)) else 0)"

text \<open>\<open>tableRows = await Promise.all(promises)\<close>.\<close>

definition update_parallel :: "world \<Rightarrow> Listing \<Rightarrow> row list io" where
  "update_parallel w doc =
     (concat (map (\<lambda>item. fst (update_task w doc item)) (listingKeys doc)),
      Promise_all (map (\<lambda>item. (update_task_settles w doc item, snd (update_task w doc item)))
                       (listingKeys doc)))"

text \<open>
  The sequential branch, \<open>for (const item of helmChartKeys) { ... tableRows.push(...) }\<close>:
  the remaining keys and the rows pushed so far.
\<close>

fun update_sequential :: "world \<Rightarrow> Listing \<Rightarrow> string list \<Rightarrow> row list \<Rightarrow> row list io" where
  "update_sequential w doc [] tableRows = ([], Inr tableRows)"
| "update_sequential w doc (item # items) tableRows =
     (let d = listingYamlDir doc item; rel = listingYamlRelativePath doc item in
      if isFunctionEnabled w d helmChartDependencyUpdate then
        (case tool w (DependencyUpdate d) of
           Inl t \<Rightarrow> ([Gate item, Invoke (DependencyUpdate d)], Inl t)
         | Inr out \<Rightarrow>
            bind_io (emit [Gate item, Invoke (DependencyUpdate d)]) (\<lambda>u.
              update_sequential w doc items (tableRows @ [(item, icon_check, rel)])))
      else
        bind_io (emit [Gate item]) (\<lambda>u.
          update_sequential w doc items (tableRows @ [(item, icon_disabled, rel)])))"

definition summaryRawContent :: "Listing \<Rightarrow> string" where
  "summaryRawContent doc =
     ''<details><summary>Found following Helm Charts...</summary>'' @ newline @ newline
       @ ''```yaml'' @ newline @ listingStringified doc @ newline @ ''```'' @ newline @ newline
       @ ''</details>''"

definition update_summary :: "Listing \<Rightarrow> row list \<Rightarrow> summary_item list" where
  "update_summary doc tableRows =
     [Heading ''Helm Chart Dependency Update Results'',
      Raw (summaryRawContent doc),
      Table tableRows,
      Break,
      Details ''Legende''
        (icon_check @ '' = Helm Chart Dependencies Updated '' @ newline
           @ '' :heavy_exclamation_mark: = Update Disabled by '' @ ciConfigYaml)]"

text \<open>\<open>core.getInput('parallel').toLowerCase() === 'true'\<close>.\<close>

definition parallelInput :: "world \<Rightarrow> bool" where
  "parallelInput w = (toLowerCase (input_parallel w) = ''true'')"

text \<open>
  The \<open>try\<close> block of the dependency-update \<open>run\<close> up to the table rows, and the whole
  block.
\<close>

definition update_collect :: "world \<Rightarrow> (Listing \<times> row list) io" where
  "update_collect w =
     (let GITHUB_WORKSPACE = String_env (env_GITHUB_WORKSPACE w) in
      bind_io (call (assertNullOrEmpty GITHUB_WORKSPACE
                       (''Missing env `'' @ envvars_GITHUB_WORKSPACE @ ''`!''))) (\<lambda>u.
      bind_io (call (getListing w GITHUB_WORKSPACE)) (\<lambda>doc.
      bind_io (if parallelInput w
               then bind_io (emit [Info ''Running helm dependency update in parallel mode''])
                      (\<lambda>u'. update_parallel w doc)
               else bind_io (emit [Info ''Running helm dependency update in sequential mode''])
                      (\<lambda>u'. update_sequential w doc (listingKeys doc) [])) (\<lambda>tableRows.
      ([], Inr (doc, tableRows))))))"

definition update_body :: "world \<Rightarrow> unit io" where
  "update_body w =
     bind_io (update_collect w) (\<lambda>(doc, tableRows). await_write w (update_summary doc tableRows))"

definition run_update :: "world \<Rightarrow> event list" where
  "run_update w = catch_handler (update_body w)"

section \<open>Manifest validation\<close>

text \<open>
  \<open>String(process.env.INPUT_VALIDATE_CHANGED_ONLY || 'false').toLowerCase() === 'true'\<close>:
  an unset or empty variable counts as \<open>false\<close>.
\<close>

definition VALIDATE_CHANGED_ONLY :: "world \<Rightarrow> bool" where
  "VALIDATE_CHANGED_ONLY w =
     (toLowerCase (case env_INPUT_VALIDATE_CHANGED_ONLY w of
                     None \<Rightarrow> ''false''
                   | Some s \<Rightarrow> (if s = [] then ''false'' else s)) = ''true'')"

text \<open>The flags collected in \<open>helmOptions\<close> for one chart directory.\<close>

definition helmOptions :: "world \<Rightarrow> string \<Rightarrow> string list" where
  "helmOptions w d =
     (let options = (case readPipelineFeatureOptions w d helmChartValidation of
                       None \<Rightarrow> Map.empty
                     | Some optionsDoc \<Rightarrow> optionsDoc)
      in (if option_set options ''--skip-crds'' False then [''--skip-crds''] else [])
         @ (if option_set options ''--skip-tests'' False then [''--skip-tests''] else [])
         @ (if option_set options ''--include-crds'' False then [''--include-crds''] else [])
         @ (if option_set options ''--dependency-update'' True then [''--dependency-update''] else []))"

definition template_call :: "world \<Rightarrow> string \<Rightarrow> tool_call" where
  "template_call w d = Template d (getHelmValueFiles w d) (helmOptions w d)"

text \<open>
  \<open>VALIDATE_CHANGED_ONLY && changedHelmCharts && !changedHelmCharts.has(item)\<close>, where
  \<open>changedHelmCharts\<close> is \<open>null\<close> (\<open>None\<close>) or a set.
\<close>

definition not_modified :: "bool \<Rightarrow> string list option \<Rightarrow> string \<Rightarrow> bool" where
  "not_modified changedOnly changedHelmCharts item =
     (changedOnly \<and> (case changedHelmCharts of None \<Rightarrow> False | Some cs \<Rightarrow> item \<notin> set cs))"

text \<open>
  The loop \<open>for (const item of Object.keys(...)) { ... }\<close> of the validation \<open>run\<close>: the
  remaining keys and the rows pushed so far.
\<close>

fun validation_loop ::
  "world \<Rightarrow> Listing \<Rightarrow> bool \<Rightarrow> string list option \<Rightarrow> string list \<Rightarrow> row list \<Rightarrow> row list io" where
  "validation_loop w doc changedOnly changed [] tableRows = ([], Inr tableRows)"
| "validation_loop w doc changedOnly changed (item # items) tableRows =
     (if not_modified changedOnly changed item then
        validation_loop w doc changedOnly changed items tableRows
      else
        (let d = listingYamlDir doc item; rel = listingYamlRelativePath doc item in
         if isFunctionEnabled w d helmChartValidation then
           (case tool w (template_call w d) of
              Inl t \<Rightarrow> ([Gate item, Invoke (template_call w d)], Inl t)
            | Inr out \<Rightarrow>
               bind_io (emit [Gate item, Invoke (template_call w d)]) (\<lambda>u.
                 validation_loop w doc changedOnly changed items
                   (tableRows @ [(item, icon_check, rel)])))
         else
           bind_io (emit [Gate item]) (\<lambda>u.
             validation_loop w doc changedOnly changed items
               (tableRows @ [(item, icon_disabled, rel)]))))"

definition validation_summary ::
  "Listing \<Rightarrow> bool \<Rightarrow> string list option \<Rightarrow> row list \<Rightarrow> summary_item list" where
  "validation_summary doc changedOnly changed tableRows =
     [Heading ''Helm Chart Manifest Validation Results'',
      Raw (summaryRawContent doc),
      Table tableRows,
      Break,
      Details ''Legende''
        (icon_check @ '' = Manifest Validated '' @ newline
           @ '' :heavy_exclamation_mark: = Validation Disabled by '' @ ciConfigYaml)]
     @ (case changed of
          None \<Rightarrow> []
        | Some cs \<Rightarrow>
           (if changedOnly
            then [Raw (newline @ newline @ ''*Validated only changed charts (''
                        @ show_nat (length cs) @ '' of ''
                        @ show_nat (length (listingKeys doc)) @ '' total charts)*'')]
            else []))"

text \<open>
  The summary of the early return. Its \<open>write()\<close> is not awaited: a failure of that write
  is not seen by the \<open>try\<close> block.
\<close>

definition no_changes_summary :: "summary_item list" where
  "no_changes_summary =
     [Heading ''Helm Chart Manifest Validation Results'',
      Raw (icon_check @ '' No Helm charts were modified in this PR. Validation skipped.'')]"

definition write_unawaited :: "world \<Rightarrow> summary_item list \<Rightarrow> event list" where
  "write_unawaited w doc =
     (case summary_write w doc of Inl t \<Rightarrow> [Unhandled t] | Inr u \<Rightarrow> [Write doc])"

text \<open>
  The outcome of the first part of the validation \<open>run\<close>: either the early return, or the
  listing, the changed set and the rows of the loop.
\<close>

datatype validation_state =
    NothingChanged
  | Validated Listing "string list option" "row list"

text \<open>The loop and what follows the change detection.\<close>

definition validation_rows ::
  "world \<Rightarrow> Listing \<Rightarrow> string list option \<Rightarrow> validation_state io" where
  "validation_rows w doc changed =
     bind_io (validation_loop w doc (VALIDATE_CHANGED_ONLY w) changed (listingKeys doc) [])
       (\<lambda>tableRows. ([], Inr (Validated doc changed tableRows)))"

definition validation_collect :: "world \<Rightarrow> validation_state io" where
  "validation_collect w =
     (let GITHUB_WORKSPACE = String_env (env_GITHUB_WORKSPACE w) in
      bind_io (call (assertNullOrEmpty GITHUB_WORKSPACE
                       (''Missing env `'' @ envvars_GITHUB_WORKSPACE @ ''`!''))) (\<lambda>u.
      bind_io (call (getListing w GITHUB_WORKSPACE)) (\<lambda>doc.
      if VALIDATE_CHANGED_ONLY w then
        bind_io (call (detectChangedHelmCharts w GITHUB_WORKSPACE)) (\<lambda>changedHelmCharts.
          if length changedHelmCharts = 0 then
            (Info ''No Helm charts modified in this PR. Skipping validation.''
               # write_unawaited w no_changes_summary, Inr NothingChanged)
          else
            bind_io (emit [Info (''Found '' @ show_nat (length changedHelmCharts)
                                   @ '' changed Helm chart(s): ''
                                   @ join '', '' changedHelmCharts)]) (\<lambda>u'.
              validation_rows w doc (Some changedHelmCharts)))
      else validation_rows w doc None)))"

definition validation_body :: "world \<Rightarrow> unit io" where
  "validation_body w =
     bind_io (validation_collect w) (\<lambda>st.
       case st of
         NothingChanged \<Rightarrow> ([], Inr ())
       | Validated doc changed tableRows \<Rightarrow>
           await_write w (validation_summary doc (VALIDATE_CHANGED_ONLY w) changed tableRows))"

definition run_validation :: "world \<Rightarrow> event list" where
  "run_validation w = catch_handler (validation_body w)"

section \<open>Example inputs\<close>

text \<open>
  A listing of two charts and a world in which everything is enabled and every tool call
  exits with code 0; \<open>on_chartA r\<close> makes the tool calls on the first chart settle as \<open>r\<close>.
\<close>

definition example_listing :: Listing where
  "example_listing =
     \<lparr>listingKeys = [''chartA'', ''chartB''],
      listingYamlDir = (\<lambda>item. ''/ws/charts/'' @ item),
      listingYamlRelativePath = (\<lambda>item. ''charts/'' @ item),
      listingStringified = ''chartA: {}''\<rparr>"

definition ok_output :: ExecOutput where
  "ok_output = \<lparr>exitCode = 0, stdout = [], stderr = []\<rparr>"

definition example_world :: world where
  "example_world =
     \<lparr>env_GITHUB_WORKSPACE = Some ''/ws'',
      env_INPUT_VALIDATE_CHANGED_ONLY = None,
      input_parallel = [],
      getListing = (\<lambda>ws. Inr example_listing),
      detectChangedHelmCharts = (\<lambda>ws. Inr []),
      isFunctionEnabled = (\<lambda>d f. True),
      readPipelineFeatureOptions = (\<lambda>d f. None),
      getHelmValueFiles = (\<lambda>d. []),
      tool = (\<lambda>c. Inr ok_output),
      settles_at = (\<lambda>c. 0),
      summary_write = (\<lambda>doc. Inr ())\<rparr>"

definition on_chartA :: "thrown + ExecOutput \<Rightarrow> tool_call \<Rightarrow> thrown + ExecOutput" where
  "on_chartA r c = (if call_dir c = ''/ws/charts/chartA'' then r else Inr ok_output)"

section \<open>Auxiliary facts\<close>

lemma invocations_append: "invocations (a @ b) = invocations a @ invocations b"
  by (induction a rule: invocations.induct) simp_all
lemma gated_append: "gated (a @ b) = gated a @ gated b"
  by (induction a rule: gated.induct) simp_all
lemma written_append: "written (a @ b) = written a @ written b"
  by (induction a rule: written.induct) simp_all
lemma setFailed_calls_append: "setFailed_calls (a @ b) = setFailed_calls a @ setFailed_calls b"
  by (induction a rule: setFailed_calls.induct) simp_all
lemma infos_append: "infos (a @ b) = infos a @ infos b"
  by (induction a rule: infos.induct) simp_all

lemma bind_io_Inl: "m = (es, Inl t) \<Longrightarrow> bind_io m f = (es, Inl t)"
  by (simp add: bind_io_def)
lemma bind_io_Inr: "m = (es, Inr a) \<Longrightarrow> bind_io m f = (es @ fst (f a), snd (f a))"
  by (simp add: bind_io_def split: prod.splits)

lemma fst_bind_io: "fst (bind_io m f) = fst m @ (case snd m of Inl t \<Rightarrow> [] | Inr a \<Rightarrow> fst (f a))"
  by (cases m) (auto simp: bind_io_def split: sum.splits prod.splits)
lemma snd_bind_io: "snd (bind_io m f) = (case snd m of Inl t \<Rightarrow> Inl t | Inr a \<Rightarrow> snd (f a))"
  by (cases m) (auto simp: bind_io_def split: sum.splits prod.splits)

lemma sublist_join: "x \<in> set xs \<Longrightarrow> sublist x (join sep xs)"
proof (induction sep xs rule: join.induct)
  case (1 sep) then show ?case by simp
next
  case (2 sep x') then show ?case by simp
next
  case (3 sep x' y ys)
  show ?case
  proof (cases "x = x'")
    case True then show ?thesis by (simp add: sublist_append_rightI) 
  next
    case False
    with 3 have "sublist x (join sep (y # ys))" by simp
    then obtain ps ss where "join sep (y # ys) = ps @ x @ ss" by (auto simp: sublist_def)
    then have "join sep (x' # y # ys) = (x' @ sep @ ps) @ x @ ss" by simp
    then show ?thesis unfolding sublist_def by blast
  qed
qed

lemma classify_props:
  "chart (classify item rel r) = item \<and> relativePath (classify item rel r) = rel"
  by (simp add: classify_def)


lemma rejections_map_Nil:
  "(rejections (map (\<lambda>k. (t k, r k)) ks) = []) = (\<forall>k\<in>set ks. \<exists>v. r k = Inr v)"
proof (induction ks)
  case Nil then show ?case by simp
next
  case (Cons k ks)
  then show ?case by (cases "r k") auto
qed

lemma fulfilled_map:
  "\<forall>k\<in>set ks. r k = Inr (g k) \<Longrightarrow> fulfilled (map (\<lambda>k. (t k, r k)) ks) = map g ks"
  by (induction ks) auto

lemma Promise_all_Inr_iff:
  "(Promise_all ps = Inr vs) = (rejections ps = [] \<and> vs = fulfilled ps)"
  by (auto simp: Promise_all_def split: list.splits)

lemma Promise_all_Inl_iff:
  "(\<exists>t. Promise_all ps = Inl t) = (rejections ps \<noteq> [])"
  by (auto simp: Promise_all_def split: list.splits)

lemma setFailed_processChart: "setFailed_calls (fst (processChart w doc out item)) = []"
  by (simp add: processChart_def Let_def split: sum.splits)
lemma written_processChart: "written (fst (processChart w doc out item)) = []"
  by (simp add: processChart_def Let_def split: sum.splits)

lemma setFailed_concat: "(\<forall>k\<in>set ks. setFailed_calls (f k) = []) \<Longrightarrow> setFailed_calls (concat (map f ks)) = []"
  by (induction ks) (simp_all add: setFailed_calls_append)
lemma written_concat: "(\<forall>k\<in>set ks. written (f k) = []) \<Longrightarrow> written (concat (map f ks)) = []"
  by (induction ks) (simp_all add: written_append)

lemma setFailed_test_results: "setFailed_calls (fst (test_results w doc out)) = []"
  by (simp add: test_results_def setFailed_concat setFailed_processChart)
lemma written_test_results: "written (fst (test_results w doc out)) = []"
  by (simp add: test_results_def written_concat written_processChart)

lemma setFailed_test_collect: "setFailed_calls (fst (test_collect w)) = []"
  by (simp add: test_collect_def Let_def fst_bind_io call_def emit_def setFailed_calls_append
      setFailed_test_results split: sum.splits)
lemma written_test_collect: "written (fst (test_collect w)) = []"
  by (simp add: test_collect_def Let_def fst_bind_io call_def emit_def written_append
      written_test_results split: sum.splits)

lemma setFailed_test_verdict:
  "setFailed_calls (test_verdict rs) =
     (if \<exists>r\<in>set rs. status r = failed
      then [''Helm tests failed for: '' @ join '', '' (map chart (failedResults rs))] else [])"
  by (auto simp: test_verdict_def failedResults_def filter_empty_conv)

lemma run_test_completed:
  assumes "snd (test_collect w) = Inr (n, rs)" and "summary_write w (test_summary n rs) = Inr ()"
  shows "setFailed_calls (run_test w) = setFailed_calls (test_verdict rs)"
proof -
  obtain es where c: "test_collect w = (es, Inr (n, rs))" using assms(1) by (cases "test_collect w") auto
  have es: "setFailed_calls es = []" using setFailed_test_collect[of w] c by simp
  show ?thesis
    using assms(2) es
    by (simp add: run_test_def test_body_def c bind_io_def test_report_def await_write_def emit_def
        catch_handler_def setFailed_calls_append)
qed


lemma Promise_all_map_Inr:
  "Promise_all (map (\<lambda>k. (t k, r k)) ks) = Inr vs \<Longrightarrow> map Inr vs = map r ks"
proof (induction ks arbitrary: vs)
  case Nil then show ?case by (simp add: Promise_all_def)
next
  case (Cons k ks)
  from Cons.prems have rj: "rejections (map (\<lambda>k. (t k, r k)) (k # ks)) = []"
    and vs: "vs = fulfilled (map (\<lambda>k. (t k, r k)) (k # ks))"
    by (simp_all add: Promise_all_Inr_iff)
  from rj obtain v where v: "r k = Inr v" by (cases "r k") auto
  from rj v have rj': "rejections (map (\<lambda>k. (t k, r k)) ks) = []" by simp
  then have "Promise_all (map (\<lambda>k. (t k, r k)) ks) = Inr (fulfilled (map (\<lambda>k. (t k, r k)) ks))"
    by (simp add: Promise_all_Inr_iff)
  from Cons.IH[OF this] show ?case using v vs by simp
qed

lemma map_Inr_keys:
  "map Inr vs = map r ks \<Longrightarrow> (\<And>k v. r k = Inr v \<Longrightarrow> g v = k) \<Longrightarrow> map g vs = ks"
proof (induction ks arbitrary: vs)
  case Nil then show ?case by simp
next
  case (Cons k ks)
  then obtain v vs' where vs: "vs = v # vs'" by (cases vs) auto
  with Cons.prems(1) have "r k = Inr v" "map Inr vs' = map r ks" by auto
  then show ?case using Cons.IH[of vs'] Cons.prems(2) vs by auto
qed

lemma processChart_chart:
  "snd (processChart w doc out item) = Inr r \<Longrightarrow> chart r = item"
  by (auto simp: processChart_def Let_def classify_def split: if_splits sum.splits)

lemma test_results_keys:
  assumes "snd (test_results w doc out) = Inr rs"
  shows "map chart rs = listingKeys doc"
proof -
  from assms have "map Inr rs = map (\<lambda>item. snd (processChart w doc out item)) (listingKeys doc)"
    by (simp add: test_results_def Promise_all_map_Inr)
  then show ?thesis by (rule map_Inr_keys) (rule processChart_chart)
qed

lemma update_task_row:
  "snd (update_task w doc item) = Inr v \<Longrightarrow>
     v = (item, if isFunctionEnabled w (listingYamlDir doc item) helmChartDependencyUpdate
                then icon_check else icon_disabled, listingYamlRelativePath doc item)"
  by (auto simp: update_task_def Let_def split: if_splits sum.splits)

lemma update_sequential_rows:
  "snd (update_sequential w doc ks acc) = Inr rows \<Longrightarrow>
     rows = acc @ map (\<lambda>item. (item, if isFunctionEnabled w (listingYamlDir doc item) helmChartDependencyUpdate
                then icon_check else icon_disabled, listingYamlRelativePath doc item)) ks"
proof (induction ks arbitrary: acc)
  case Nil then show ?case by simp
next
  case (Cons k ks)
  show ?case
  proof (cases "isFunctionEnabled w (listingYamlDir doc k) helmChartDependencyUpdate")
    case True
    with Cons.prems obtain out where "tool w (DependencyUpdate (listingYamlDir doc k)) = Inr out"
      by (cases "tool w (DependencyUpdate (listingYamlDir doc k))") (auto simp: Let_def)
    with Cons.prems True have
      "snd (update_sequential w doc ks (acc @ [(k, icon_check, listingYamlRelativePath doc k)])) = Inr rows"
      by (simp add: Let_def snd_bind_io emit_def)
    from Cons.IH[OF this] True show ?thesis by simp
  next
    case False
    with Cons.prems have
      "snd (update_sequential w doc ks (acc @ [(k, icon_disabled, listingYamlRelativePath doc k)])) = Inr rows"
      by (simp add: Let_def snd_bind_io emit_def)
    from Cons.IH[OF this] False show ?thesis by simp
  qed
qed

lemma update_sequential_Inr_iff:
  "(\<exists>rows. snd (update_sequential w doc ks acc) = Inr rows)
     = (\<forall>k\<in>set ks. \<exists>v. snd (update_task w doc k) = Inr v)"
proof (induction ks arbitrary: acc)
  case Nil then show ?case by simp
next
  case (Cons k ks)
  show ?case
  proof (cases "isFunctionEnabled w (listingYamlDir doc k) helmChartDependencyUpdate")
    case True
    show ?thesis
    proof (cases "tool w (DependencyUpdate (listingYamlDir doc k))")
      case (Inl t)
      with True show ?thesis by (simp add: Let_def update_task_def)
    next
      case (Inr out)
      with True have "snd (update_sequential w doc (k # ks) acc) =
         snd (update_sequential w doc ks (acc @ [(k, icon_check, listingYamlRelativePath doc k)]))"
        by (simp add: Let_def snd_bind_io emit_def)
      moreover have "\<exists>v. snd (update_task w doc k) = Inr v"
        using True Inr by (simp add: update_task_def Let_def)
      ultimately show ?thesis using Cons.IH by simp
    qed
  next
    case False
    then have "snd (update_sequential w doc (k # ks) acc) =
         snd (update_sequential w doc ks (acc @ [(k, icon_disabled, listingYamlRelativePath doc k)]))"
      by (simp add: Let_def snd_bind_io emit_def)
    moreover have "\<exists>v. snd (update_task w doc k) = Inr v"
      using False by (simp add: update_task_def Let_def)
    ultimately show ?thesis using Cons.IH by simp
  qed
qed

lemma update_parallel_rows:
  assumes "snd (update_parallel w doc) = Inr rows"
  shows "rows = map (\<lambda>item. (item, if isFunctionEnabled w (listingYamlDir doc item) helmChartDependencyUpdate
                then icon_check else icon_disabled, listingYamlRelativePath doc item)) (listingKeys doc)"
proof -
  let ?F = "\<lambda>item. (item, if isFunctionEnabled w (listingYamlDir doc item) helmChartDependencyUpdate
                then icon_check else icon_disabled, listingYamlRelativePath doc item)"
  from assms have m: "map Inr rows = map (\<lambda>item. snd (update_task w doc item)) (listingKeys doc)"
    by (simp add: update_parallel_def Promise_all_map_Inr)
  have "map Inr vs = map (\<lambda>item. snd (update_task w doc item)) ks \<Longrightarrow> vs = map ?F ks" for vs ks
  proof (induction ks arbitrary: vs)
    case Nil then show ?case by simp
  next
    case (Cons k ks)
    then obtain v vs' where vs: "vs = v # vs'" by (cases vs) auto
    with Cons.prems have h: "snd (update_task w doc k) = Inr v"
      "map Inr vs' = map (\<lambda>item. snd (update_task w doc item)) ks" by auto
    from update_task_row[OF h(1)] Cons.IH[OF h(2)] vs show ?case by simp
  qed
  from this[OF m] show ?thesis .
qed

lemma update_parallel_Inr_iff:
  "(\<exists>rows. snd (update_parallel w doc) = Inr rows)
     = (\<forall>k\<in>set (listingKeys doc). \<exists>v. snd (update_task w doc k) = Inr v)"
  by (simp add: update_parallel_def Promise_all_Inr_iff rejections_map_Nil)

lemma update_modes_agree:
  "map_sum (\<lambda>t. ()) id (snd (update_parallel w doc))
     = map_sum (\<lambda>t. ()) id (snd (update_sequential w doc (listingKeys doc) []))"
proof (cases "\<forall>k\<in>set (listingKeys doc). \<exists>v. snd (update_task w doc k) = Inr v")
  case True
  then obtain r1 r2 where r: "snd (update_parallel w doc) = Inr r1"
    "snd (update_sequential w doc (listingKeys doc) []) = Inr r2"
    using update_parallel_Inr_iff[of w doc] update_sequential_Inr_iff[of w doc "listingKeys doc" "[]"]
    by blast
  from update_parallel_rows[OF r(1)] update_sequential_rows[OF r(2)] r show ?thesis by simp
next
  case False
  then have "\<not> (\<exists>rows. snd (update_parallel w doc) = Inr rows)"
    "\<not> (\<exists>rows. snd (update_sequential w doc (listingKeys doc) []) = Inr rows)"
    using update_parallel_Inr_iff[of w doc] update_sequential_Inr_iff[of w doc "listingKeys doc" "[]"]
    by blast+
  then obtain t1 t2 where "snd (update_parallel w doc) = Inl t1"
    "snd (update_sequential w doc (listingKeys doc) []) = Inl t2"
    by (metis sum.exhaust)
  then show ?thesis by simp
qed

lemma validation_loop_rows:
  "snd (validation_loop w doc co ch ks acc) = Inr rows \<Longrightarrow>
     rows = acc @ map (\<lambda>item. (item, if isFunctionEnabled w (listingYamlDir doc item) helmChartValidation
                then icon_check else icon_disabled, listingYamlRelativePath doc item))
              (filter (\<lambda>item. \<not> not_modified co ch item) ks)"
proof (induction ks arbitrary: acc)
  case Nil then show ?case by simp
next
  case (Cons k ks)
  show ?case
  proof (cases "not_modified co ch k")
    case True
    with Cons.prems have "snd (validation_loop w doc co ch ks acc) = Inr rows" by simp
    from Cons.IH[OF this] True show ?thesis by simp
  next
    case nm: False
    show ?thesis
    proof (cases "isFunctionEnabled w (listingYamlDir doc k) helmChartValidation")
      case True
      with nm Cons.prems obtain out where "tool w (template_call w (listingYamlDir doc k)) = Inr out"
        by (cases "tool w (template_call w (listingYamlDir doc k))") (auto simp: Let_def)
      with Cons.prems True nm have
        "snd (validation_loop w doc co ch ks (acc @ [(k, icon_check, listingYamlRelativePath doc k)])) = Inr rows"
        by (simp add: Let_def snd_bind_io emit_def)
      from Cons.IH[OF this] True nm show ?thesis by simp
    next
      case False
      with Cons.prems nm have
        "snd (validation_loop w doc co ch ks (acc @ [(k, icon_disabled, listingYamlRelativePath doc k)])) = Inr rows"
        by (simp add: Let_def snd_bind_io emit_def)
      from Cons.IH[OF this] False nm show ?thesis by simp
    qed
  qed
qed

lemma validation_loop_gated:
  "set (gated (fst (validation_loop w doc co ch ks acc))) \<subseteq> {k \<in> set ks. \<not> not_modified co ch k}"
  by (induction ks arbitrary: acc)
     (auto simp: Let_def fst_bind_io emit_def gated_append split: sum.splits)

lemma validation_loop_invocations:
  "c \<in> set (invocations (fst (validation_loop w doc co ch ks acc))) \<Longrightarrow>
     isFunctionEnabled w (call_dir c) helmChartValidation"
  by (induction ks arbitrary: acc)
     (auto simp: Let_def fst_bind_io emit_def invocations_append template_call_def split: sum.splits if_splits)

lemma validation_loop_quiet:
  "setFailed_calls (fst (validation_loop w doc co ch ks acc)) = []
   \<and> written (fst (validation_loop w doc co ch ks acc)) = []"
  by (induction ks arbitrary: acc)
     (auto simp: Let_def fst_bind_io emit_def setFailed_calls_append written_append split: sum.splits)

lemma update_sequential_invocations:
  "c \<in> set (invocations (fst (update_sequential w doc ks acc))) \<Longrightarrow>
     isFunctionEnabled w (call_dir c) helmChartDependencyUpdate"
  by (induction ks arbitrary: acc)
     (auto simp: Let_def fst_bind_io emit_def invocations_append split: sum.splits if_splits)

lemma update_sequential_quiet:
  "setFailed_calls (fst (update_sequential w doc ks acc)) = []
   \<and> written (fst (update_sequential w doc ks acc)) = []"
  by (induction ks arbitrary: acc)
     (auto simp: Let_def fst_bind_io emit_def setFailed_calls_append written_append split: sum.splits)

lemma invocations_concat:
  "c \<in> set (invocations (concat (map f ks))) \<Longrightarrow> \<exists>k\<in>set ks. c \<in> set (invocations (f k))"
  by (induction ks) (auto simp: invocations_append)

lemma update_task_invocations:
  "c \<in> set (invocations (fst (update_task w doc k))) \<Longrightarrow>
     isFunctionEnabled w (call_dir c) helmChartDependencyUpdate"
  by (auto simp: update_task_def Let_def split: if_splits sum.splits)

lemma update_task_quiet:
  "setFailed_calls (fst (update_task w doc k)) = [] \<and> written (fst (update_task w doc k)) = []"
  by (auto simp: update_task_def Let_def split: if_splits sum.splits)

lemma update_parallel_invocations:
  "c \<in> set (invocations (fst (update_parallel w doc))) \<Longrightarrow>
     isFunctionEnabled w (call_dir c) helmChartDependencyUpdate"
  by (auto simp: update_parallel_def dest!: invocations_concat dest: update_task_invocations)

lemma update_parallel_quiet:
  "setFailed_calls (fst (update_parallel w doc)) = [] \<and> written (fst (update_parallel w doc)) = []"
  by (simp add: update_parallel_def setFailed_concat written_concat update_task_quiet)

lemma processChart_invocations:
  "c \<in> set (invocations (fst (processChart w doc out k))) \<Longrightarrow>
     isFunctionEnabled w (call_dir c) helmChartTest"
  by (auto simp: processChart_def unittest_call_def Let_def split: if_splits sum.splits)

lemma test_results_invocations:
  "c \<in> set (invocations (fst (test_results w doc out))) \<Longrightarrow>
     isFunctionEnabled w (call_dir c) helmChartTest"
  by (auto simp: test_results_def dest!: invocations_concat dest: processChart_invocations)

lemma invocations_catch_handler: "invocations (catch_handler r) = invocations (fst r)"
  by (cases r) (auto simp: catch_handler_def invocations_append split: sum.splits thrown.splits)

lemma gated_catch_handler: "gated (catch_handler r) = gated (fst r)"
  by (cases r) (auto simp: catch_handler_def gated_append split: sum.splits thrown.splits)

lemma written_catch_handler: "written (catch_handler r) = written (fst r)"
  by (cases r) (auto simp: catch_handler_def written_append split: sum.splits thrown.splits)


lemma run_test_invocations:
  "c \<in> set (invocations (run_test w)) \<Longrightarrow> isFunctionEnabled w (call_dir c) helmChartTest"
  by (auto simp: run_test_def invocations_catch_handler test_body_def test_collect_def Let_def
      fst_bind_io snd_bind_io call_def emit_def invocations_append test_report_def await_write_def
      test_verdict_def
      split: sum.splits if_splits dest: test_results_invocations)

lemma run_update_invocations:
  "c \<in> set (invocations (run_update w)) \<Longrightarrow> isFunctionEnabled w (call_dir c) helmChartDependencyUpdate"
  by (auto simp: run_update_def invocations_catch_handler update_body_def update_collect_def Let_def
      fst_bind_io snd_bind_io call_def emit_def invocations_append await_write_def
      split: sum.splits if_splits dest: update_parallel_invocations update_sequential_invocations)

lemma invocations_write_unawaited: "invocations (write_unawaited w d) = []"
  by (simp add: write_unawaited_def split: sum.splits)

lemma run_validation_invocations:
  "c \<in> set (invocations (run_validation w)) \<Longrightarrow> isFunctionEnabled w (call_dir c) helmChartValidation"
  by (auto simp: run_validation_def invocations_catch_handler validation_body_def validation_collect_def
      validation_rows_def Let_def invocations_write_unawaited
      fst_bind_io snd_bind_io call_def emit_def invocations_append await_write_def
      split: sum.splits if_splits validation_state.splits dest: validation_loop_invocations)

lemma doc_tables_test_summary: "doc_tables (test_summary n rs) = [test_tableRows rs]"
  by (simp add: test_summary_def)
lemma doc_tables_update_summary: "doc_tables (update_summary doc rows) = [rows]"
  by (simp add: update_summary_def)
lemma doc_tables_validation_summary: "doc_tables (validation_summary doc co ch rows) = [rows]"
  by (simp add: validation_summary_def split: option.splits)
lemma doc_tables_no_changes: "doc_tables no_changes_summary = []"
  by (simp add: no_changes_summary_def)

lemma written_test_verdict: "written (test_verdict rs) = []"
  by (simp add: test_verdict_def)

lemma written_run_test:
  "written (run_test w) =
     (case snd (test_collect w) of
        Inl t \<Rightarrow> []
      | Inr (n, rs) \<Rightarrow> (case summary_write w (test_summary n rs) of
                         Inl t \<Rightarrow> [] | Inr u \<Rightarrow> [test_summary n rs]))"
  by (simp add: run_test_def written_catch_handler test_body_def fst_bind_io written_append
      written_test_collect test_report_def await_write_def emit_def written_test_verdict
      split: sum.splits prod.splits)

lemma update_collect_quiet:
  "setFailed_calls (fst (update_collect w)) = [] \<and> written (fst (update_collect w)) = []"
  by (simp add: update_collect_def Let_def fst_bind_io snd_bind_io call_def emit_def
      setFailed_calls_append written_append update_parallel_quiet update_sequential_quiet
      split: sum.splits)

lemma written_run_update:
  "written (run_update w) =
     (case snd (update_collect w) of
        Inl t \<Rightarrow> []
      | Inr (doc, rows) \<Rightarrow> (case summary_write w (update_summary doc rows) of
                         Inl t \<Rightarrow> [] | Inr u \<Rightarrow> [update_summary doc rows]))"
  by (simp add: run_update_def written_catch_handler update_body_def fst_bind_io written_append
      update_collect_quiet await_write_def
      split: sum.splits prod.splits)

lemma validation_collect_quiet:
  "setFailed_calls (fst (validation_collect w)) = []"
  by (simp add: validation_collect_def validation_rows_def Let_def fst_bind_io snd_bind_io call_def emit_def
      setFailed_calls_append validation_loop_quiet write_unawaited_def
      split: sum.splits)

lemma validation_collect_written:
  "written (fst (validation_collect w)) =
     (case snd (validation_collect w) of
        Inr NothingChanged \<Rightarrow> written (write_unawaited w no_changes_summary)
      | Inr (Validated doc ch rows) \<Rightarrow> []
      | Inl t \<Rightarrow> [])"
  by (simp add: validation_collect_def validation_rows_def Let_def fst_bind_io snd_bind_io call_def emit_def
      written_append validation_loop_quiet
      split: sum.splits)

lemma written_run_validation:
  "written (run_validation w) =
     (case snd (validation_collect w) of
        Inl t \<Rightarrow> []
      | Inr NothingChanged \<Rightarrow> written (write_unawaited w no_changes_summary)
      | Inr (Validated doc ch rows) \<Rightarrow>
          (case summary_write w (validation_summary doc (VALIDATE_CHANGED_ONLY w) ch rows) of
             Inl t \<Rightarrow> [] | Inr u \<Rightarrow> [validation_summary doc (VALIDATE_CHANGED_ONLY w) ch rows]))"
  by (simp add: run_validation_def written_catch_handler validation_body_def fst_bind_io written_append
      validation_collect_written await_write_def
      split: sum.splits validation_state.splits)

lemma tables_write_unawaited_no_changes: "concat (map doc_tables (written (write_unawaited w no_changes_summary))) = []"
  by (simp add: write_unawaited_def doc_tables_no_changes split: sum.splits)

lemma tables_run_test:
  assumes "rows \<in> set (tables (run_test w))"
  shows "\<exists>n rs. snd (test_collect w) = Inr (n, rs) \<and> rows = test_tableRows rs"
proof (cases "snd (test_collect w)")
  case (Inl t)
  with assms show ?thesis by (simp add: tables_def written_run_test)
next
  case (Inr p)
  obtain n rs where p: "p = (n, rs)" by (cases p)
  with assms Inr have "rows = test_tableRows rs"
    by (cases "summary_write w (test_summary n rs)")
       (simp_all add: tables_def written_run_test doc_tables_test_summary)
  with Inr p show ?thesis by simp
qed

lemma tables_run_update:
  assumes "rows \<in> set (tables (run_update w))"
  shows "\<exists>doc. snd (update_collect w) = Inr (doc, rows)"
proof (cases "snd (update_collect w)")
  case (Inl t)
  with assms show ?thesis by (simp add: tables_def written_run_update)
next
  case (Inr p)
  obtain doc rs where p: "p = (doc, rs)" by (cases p)
  with assms Inr have "rows = rs"
    by (cases "summary_write w (update_summary doc rs)")
       (simp_all add: tables_def written_run_update doc_tables_update_summary)
  with Inr p show ?thesis by simp
qed

lemma tables_run_validation:
  assumes "rows \<in> set (tables (run_validation w))"
  shows "\<exists>doc ch. snd (validation_collect w) = Inr (Validated doc ch rows)"
proof (cases "snd (validation_collect w)")
  case (Inl t)
  with assms show ?thesis by (simp add: tables_def written_run_validation)
next
  case (Inr st)
  show ?thesis
  proof (cases st)
    case NothingChanged
    with assms Inr show ?thesis
      by (simp add: tables_def written_run_validation tables_write_unawaited_no_changes)
  next
    case (Validated doc ch rs)
    with assms Inr have "rows = rs"
      by (cases "summary_write w (validation_summary doc (VALIDATE_CHANGED_ONLY w) ch rs)")
         (simp_all add: tables_def written_run_validation doc_tables_validation_summary)
    with Inr Validated show ?thesis by simp
  qed
qed

lemma test_collect_results:
  assumes "snd (test_collect w) = Inr (n, rs)"
  shows "\<exists>doc. getListing w (String_env (env_GITHUB_WORKSPACE w)) = Inr doc
      \<and> n = length (listingKeys doc)
      \<and> snd (test_results w doc (path_join (String_env (env_GITHUB_WORKSPACE w)) ''.helm-test-output'')) = Inr rs"
  using assms
  by (auto simp: test_collect_def Let_def snd_bind_io call_def emit_def split: sum.splits)

lemma update_collect_rows:
  assumes "snd (update_collect w) = Inr (doc, rows)"
  shows "getListing w (String_env (env_GITHUB_WORKSPACE w)) = Inr doc
      \<and> (if parallelInput w then snd (update_parallel w doc) = Inr rows
          else snd (update_sequential w doc (listingKeys doc) []) = Inr rows)"
  using assms
  by (auto simp: update_collect_def Let_def snd_bind_io call_def emit_def split: sum.splits if_splits)

lemma validation_collect_rows:
  assumes "snd (validation_collect w) = Inr (Validated doc ch rows)"
  shows "getListing w (String_env (env_GITHUB_WORKSPACE w)) = Inr doc
      \<and> snd (validation_loop w doc (VALIDATE_CHANGED_ONLY w) ch (listingKeys doc) []) = Inr rows
      \<and> (if VALIDATE_CHANGED_ONLY w
          then \<exists>cs. ch = Some cs \<and> cs \<noteq> [] \<and> detectChangedHelmCharts w (String_env (env_GITHUB_WORKSPACE w)) = Inr cs
          else ch = None)"
  using assms
  by (auto simp: validation_collect_def validation_rows_def Let_def snd_bind_io call_def emit_def
      split: sum.splits if_splits)

lemma map_Inr_mem:
  assumes "map Inr vs = map r ks" and "v \<in> set vs"
  shows "\<exists>k\<in>set ks. r k = Inr v"
proof -
  from assms(1) have eq: "set (map Inr vs) = set (map r ks)" by (rule arg_cong)
  from assms(2) have "Inr v \<in> set (map Inr vs)" by simp
  with eq have "Inr v \<in> set (map r ks)" by blast
  then show ?thesis by auto
qed

lemma processChart_disabled:
  assumes "snd (processChart w doc out item) = Inr r"
    and "\<not> isFunctionEnabled w (listingYamlDir doc item) helmChartTest"
  shows "status r = disabled \<and> reason r = Some ''Disabled by .ci.config.yaml''"
  using assms by (auto simp: processChart_def Let_def)

lemma test_results_mem:
  assumes "snd (test_results w doc out) = Inr rs" and "r \<in> set rs"
  shows "snd (processChart w doc out (chart r)) = Inr r"
proof -
  from assms(1) have "map Inr rs = map (\<lambda>item. snd (processChart w doc out item)) (listingKeys doc)"
    by (simp add: test_results_def Promise_all_map_Inr)
  from map_Inr_mem[OF this assms(2)] obtain k where k: "snd (processChart w doc out k) = Inr r"
    by blast
  with processChart_chart[OF k] show ?thesis by simp
qed

lemma validation_loop_gated_completed:
  "snd (validation_loop w doc co ch ks acc) = Inr rows \<Longrightarrow>
     gated (fst (validation_loop w doc co ch ks acc)) = filter (\<lambda>item. \<not> not_modified co ch item) ks"
proof (induction ks arbitrary: acc)
  case Nil then show ?case by simp
next
  case (Cons k ks)
  show ?case
  proof (cases "not_modified co ch k")
    case True
    with Cons show ?thesis by simp
  next
    case nm: False
    show ?thesis
    proof (cases "isFunctionEnabled w (listingYamlDir doc k) helmChartValidation")
      case True
      with nm Cons.prems obtain out where out: "tool w (template_call w (listingYamlDir doc k)) = Inr out"
        by (cases "tool w (template_call w (listingYamlDir doc k))") (auto simp: Let_def)
      with Cons.prems True nm have
        "snd (validation_loop w doc co ch ks (acc @ [(k, icon_check, listingYamlRelativePath doc k)])) = Inr rows"
        by (simp add: Let_def snd_bind_io emit_def)
      from Cons.IH[OF this] True nm out show ?thesis
        by (simp add: Let_def fst_bind_io emit_def gated_append)
    next
      case False
      with Cons.prems nm have
        "snd (validation_loop w doc co ch ks (acc @ [(k, icon_disabled, listingYamlRelativePath doc k)])) = Inr rows"
        by (simp add: Let_def snd_bind_io emit_def)
      from Cons.IH[OF this] False nm show ?thesis
        by (simp add: Let_def fst_bind_io emit_def gated_append)
    qed
  qed
qed

lemma gated_write_unawaited: "gated (write_unawaited w d) = []"
  by (simp add: write_unawaited_def split: sum.splits)

lemma run_validation_gated:
  assumes "VALIDATE_CHANGED_ONLY w"
    and "detectChangedHelmCharts w (String_env (env_GITHUB_WORKSPACE w)) = Inr cs"
  shows "set (gated (run_validation w)) \<subseteq> set cs"
proof -
  have "set (gated (fst (validation_loop w doc True (Some cs) ks []))) \<subseteq> set cs" for doc ks
    using validation_loop_gated[of w doc True "Some cs" ks "[]"] by (auto simp: not_modified_def)
  then show ?thesis using assms
    by (auto simp: run_validation_def gated_catch_handler validation_body_def validation_collect_def
        validation_rows_def Let_def gated_write_unawaited
        fst_bind_io snd_bind_io call_def emit_def gated_append await_write_def
        split: sum.splits if_splits validation_state.splits)
qed

lemma update_sequential_input_parallel:
  "update_sequential (w\<lparr>input_parallel := p\<rparr>) doc ks acc = update_sequential w doc ks acc"
  by (induction ks arbitrary: acc) (simp_all add: Let_def split: sum.splits)

lemma snd_update_collect:
  "snd (update_collect w) =
     (case assertNullOrEmpty (String_env (env_GITHUB_WORKSPACE w))
             (''Missing env `'' @ envvars_GITHUB_WORKSPACE @ ''`!'') of
        Inl t \<Rightarrow> Inl t
      | Inr u \<Rightarrow>
         (case getListing w (String_env (env_GITHUB_WORKSPACE w)) of
            Inl t \<Rightarrow> Inl t
          | Inr doc \<Rightarrow>
             (case (if parallelInput w then snd (update_parallel w doc)
                    else snd (update_sequential w doc (listingKeys doc) [])) of
                Inl t \<Rightarrow> Inl t
              | Inr rows \<Rightarrow> Inr (doc, rows))))"
  by (simp add: update_collect_def Let_def snd_bind_io call_def emit_def split: sum.splits)

lemma update_collect_mode_free:
  "map_sum (\<lambda>t. ()) id (snd (update_collect w)) =
     (case assertNullOrEmpty (String_env (env_GITHUB_WORKSPACE w))
             (''Missing env `'' @ envvars_GITHUB_WORKSPACE @ ''`!'') of
        Inl t \<Rightarrow> Inl ()
      | Inr u \<Rightarrow>
         (case getListing w (String_env (env_GITHUB_WORKSPACE w)) of
            Inl t \<Rightarrow> Inl ()
          | Inr doc \<Rightarrow>
             (case snd (update_sequential w doc (listingKeys doc) []) of
                Inl t \<Rightarrow> Inl ()
              | Inr rows \<Rightarrow> Inr (doc, rows))))"
proof (cases "assertNullOrEmpty (String_env (env_GITHUB_WORKSPACE w))
             (''Missing env `'' @ envvars_GITHUB_WORKSPACE @ ''`!'')")
  case (Inl t)
  then show ?thesis by (simp add: snd_update_collect)
next
  case ok: (Inr u)
  show ?thesis
  proof (cases "getListing w (String_env (env_GITHUB_WORKSPACE w))")
    case (Inl t)
    with ok show ?thesis by (simp add: snd_update_collect)
  next
    case (Inr doc)
    have par: "map_sum (\<lambda>t. ()) (\<lambda>rows. (doc, rows)) (snd (update_parallel w doc))
      = map_sum (\<lambda>t. ()) (\<lambda>rows. (doc, rows)) (snd (update_sequential w doc (listingKeys doc) []))"
      using update_modes_agree[of w doc]
      by (cases "snd (update_parallel w doc)"; cases "snd (update_sequential w doc (listingKeys doc) [])")
         simp_all
    show ?thesis
    proof (cases "parallelInput w")
      case True
      with ok Inr have "map_sum (\<lambda>t. ()) id (snd (update_collect w))
          = map_sum (\<lambda>t. ()) (\<lambda>rows. (doc, rows)) (snd (update_parallel w doc))"
        by (simp add: snd_update_collect split: sum.splits)
      with par ok Inr show ?thesis by (simp split: sum.splits)
    next
      case False
      with ok Inr show ?thesis by (simp add: snd_update_collect split: sum.splits)
    qed
  qed
qed

lemma written_run_update_mode_free:
  "written (run_update w) =
     (case map_sum (\<lambda>t. ()) id (snd (update_collect w)) of
        Inl u \<Rightarrow> []
      | Inr (doc, rows) \<Rightarrow> (case summary_write w (update_summary doc rows) of
                         Inl t \<Rightarrow> [] | Inr u \<Rightarrow> [update_summary doc rows]))"
  by (simp add: written_run_update split: sum.splits)

lemma body_throw_quiet:
  "snd (bind_io m f) = Inl t \<Longrightarrow>
     (\<And>a. snd m = Inr a \<Longrightarrow> snd (f a) = Inl t \<Longrightarrow> fst (f a) = []) \<Longrightarrow>
     fst (bind_io m f) = fst m"
  by (cases m) (auto simp: bind_io_def split: sum.splits prod.splits)

lemma test_body_throw:
  assumes "snd (test_body w) = Inl t"
  shows "setFailed_calls (fst (test_body w)) = [] \<and> written (fst (test_body w)) = []"
proof -
  have "fst (test_body w) = fst (test_collect w)"
    unfolding test_body_def
    by (rule body_throw_quiet[OF assms[unfolded test_body_def]])
       (auto simp: test_report_def await_write_def bind_io_def emit_def split: sum.splits prod.splits)
  then show ?thesis by (simp add: setFailed_test_collect written_test_collect)
qed

lemma update_body_throw:
  assumes "snd (update_body w) = Inl t"
  shows "setFailed_calls (fst (update_body w)) = [] \<and> written (fst (update_body w)) = []"
proof -
  have "fst (update_body w) = fst (update_collect w)"
    unfolding update_body_def
    by (rule body_throw_quiet[OF assms[unfolded update_body_def]])
       (auto simp: await_write_def split: sum.splits prod.splits)
  then show ?thesis by (simp add: update_collect_quiet)
qed

lemma validation_body_throw:
  assumes "snd (validation_body w) = Inl t"
  shows "setFailed_calls (fst (validation_body w)) = [] \<and> written (fst (validation_body w)) = []"
proof -
  have f: "fst (validation_body w) = fst (validation_collect w)"
    unfolding validation_body_def
    by (rule body_throw_quiet[OF assms[unfolded validation_body_def]])
       (auto simp: await_write_def split: sum.splits validation_state.splits)
  have "snd (validation_collect w) \<noteq> Inr NothingChanged"
    using assms by (auto simp: validation_body_def snd_bind_io)
  then have "written (fst (validation_collect w)) = []"
    by (simp add: validation_collect_written split: sum.splits validation_state.splits)
  with f show ?thesis by (simp add: validation_collect_quiet)
qed



lemmas run_eval = String_env_def assertNullOrEmpty_def envvars_GITHUB_WORKSPACE_def
  bind_io_def call_def emit_def await_write_def catch_handler_def path_join_def
  Promise_all_def option_set_def tables_def

lemmas test_eval = run_test_def test_body_def test_collect_def test_report_def test_results_def
  processChart_def processChart_settles_def unittest_call_def test_options_def classify_def
  test_verdict_def failedResults_def

lemmas update_eval = run_update_def update_body_def update_collect_def update_parallel_def
  update_task_def update_task_settles_def parallelInput_def toLowerCase_def lower_char_def
  update_summary_def

lemmas validation_eval = run_validation_def validation_body_def validation_collect_def
  validation_rows_def not_modified_def template_call_def helmOptions_def VALIDATE_CHANGED_ONLY_def
  toLowerCase_def lower_char_def write_unawaited_def validation_summary_def

lemmas example_defs = example_world_def example_listing_def ok_output_def on_chartA_def

section \<open>The claims\<close>

subsection \<open>Verdict of the unit-testing run\<close>

text \<open>
  C1. When the unit-testing run has collected its results and written its summary, it
  calls \<open>core.setFailed\<close> if and only if at least one result has status \<open>failed\<close>; with
  only \<open>passed\<close>, \<open>skipped\<close> and \<open>disabled\<close> results it does not; and when it does, it
  does so once, with a message that contains the name of every failed chart.
\<close>

theorem test_verdict_iff_failed:
  assumes "snd (test_collect w) = Inr (n, results)"
    and "summary_write w (test_summary n results) = Inr ()"
  shows "((setFailed_calls (run_test w) \<noteq> []) = (\<exists>r\<in>set results. status r = failed))
       \<and> ((\<forall>r\<in>set results. status r = passed \<or> status r = skipped \<or> status r = disabled)
            \<longrightarrow> setFailed_calls (run_test w) = [])
       \<and> ((\<exists>r\<in>set results. status r = failed) \<longrightarrow>
            (\<exists>m. setFailed_calls (run_test w) = [m]
                 \<and> (\<forall>r\<in>set results. status r = failed \<longrightarrow> sublist (chart r) m)))"
proof -
  have eq: "setFailed_calls (run_test w) = setFailed_calls (test_verdict results)"
    using assms by (rule run_test_completed)
  have a: "(setFailed_calls (run_test w) \<noteq> []) = (\<exists>r\<in>set results. status r = failed)"
    by (simp add: eq setFailed_test_verdict)
  have b: "(\<forall>r\<in>set results. status r = passed \<or> status r = skipped \<or> status r = disabled)
            \<longrightarrow> setFailed_calls (run_test w) = []"
    using a by auto
  have c: "(\<exists>r\<in>set results. status r = failed) \<longrightarrow>
            (\<exists>m. setFailed_calls (run_test w) = [m]
                 \<and> (\<forall>r\<in>set results. status r = failed \<longrightarrow> sublist (chart r) m))"
  proof
    assume ex: "\<exists>r\<in>set results. status r = failed"
    let ?m = "''Helm tests failed for: '' @ join '', '' (map chart (failedResults results))"
    have m: "setFailed_calls (run_test w) = [?m]" using ex by (simp add: eq setFailed_test_verdict)
    have "sublist (chart r) ?m" if "r \<in> set results" "status r = failed" for r
    proof -
      have "chart r \<in> set (map chart (failedResults results))"
        using that by (auto simp: failedResults_def)
      then have "sublist (chart r) (join '', '' (map chart (failedResults results)))"
        by (rule sublist_join)
      then obtain ps ss where "join '', '' (map chart (failedResults results)) = ps @ chart r @ ss"
        by (auto simp: sublist_def)
      then have "?m = (''Helm tests failed for: '' @ ps) @ chart r @ ss" by simp
      then show ?thesis unfolding sublist_def by blast
    qed
    with m show "\<exists>m. setFailed_calls (run_test w) = [m]
                 \<and> (\<forall>r\<in>set results. status r = failed \<longrightarrow> sublist (chart r) m)" by blast
  qed
  from a b c show ?thesis by blast
qed

theorem test_verdict_iff_failed_witness:
  "snd (test_collect (example_world\<lparr>tool := on_chartA (Inr \<lparr>exitCode = 1, stdout = [], stderr = ''boom''\<rparr>)\<rparr>))
     = Inr (2, [\<lparr>chart = ''chartA'', status = failed, reason = Some ''boom'', relativePath = ''charts/chartA''\<rparr>,
                \<lparr>chart = ''chartB'', status = passed, reason = None, relativePath = ''charts/chartB''\<rparr>])
   \<and> setFailed_calls (run_test (example_world\<lparr>tool := on_chartA (Inr \<lparr>exitCode = 1, stdout = [], stderr = ''boom''\<rparr>)\<rparr>))
       = [''Helm tests failed for: chartA'']
   \<and> sublist ''chartA'' ''Helm tests failed for: chartA''"
proof -
  let ?w = "example_world\<lparr>tool := on_chartA (Inr \<lparr>exitCode = 1, stdout = [], stderr = ''boom''\<rparr>)\<rparr>"
  let ?rs = "[\<lparr>chart = ''chartA'', status = failed, reason = Some ''boom'', relativePath = ''charts/chartA''\<rparr>,
                \<lparr>chart = ''chartB'', status = passed, reason = None, relativePath = ''charts/chartB''\<rparr>]"
  have h1: "snd (test_collect ?w) = Inr (2, ?rs)"
    by (simp add: example_defs run_eval test_eval)
  have h2: "summary_write ?w (test_summary 2 ?rs) = Inr ()"
    by (simp add: example_defs)
  have m: "setFailed_calls (run_test ?w) = [''Helm tests failed for: chartA'']"
    by (simp add: example_defs run_eval test_eval)
  from test_verdict_iff_failed[OF h1 h2] h1 m show ?thesis by auto
qed

subsection \<open>One result per chart, in order\<close>

text \<open>
  C2. Whenever a run produces its results, there is exactly one entry per chart of the
  working set, in the order of the working set: for the unit-testing run (always
  parallel), for the dependency update in either mode, and for the validation run, whose
  working set is the listing filtered by the changed set when change filtering is on.
\<close>

theorem result_list_follows_working_set:
  assumes "getListing w (String_env (env_GITHUB_WORKSPACE w)) = Inr doc"
  shows "(\<forall>n results. snd (test_collect w) = Inr (n, results) \<longrightarrow> map chart results = listingKeys doc)
       \<and> (\<forall>rows\<in>set (tables (run_test w)). map fst rows = listingKeys doc)
       \<and> (\<forall>p. \<forall>rows\<in>set (tables (run_update (w\<lparr>input_parallel := p\<rparr>))). map fst rows = listingKeys doc)
       \<and> (\<not> VALIDATE_CHANGED_ONLY w \<longrightarrow>
            (\<forall>rows\<in>set (tables (run_validation w)). map fst rows = listingKeys doc))
       \<and> (\<forall>cs. VALIDATE_CHANGED_ONLY w
                 \<and> detectChangedHelmCharts w (String_env (env_GITHUB_WORKSPACE w)) = Inr cs \<longrightarrow>
            (\<forall>rows\<in>set (tables (run_validation w)).
                map fst rows = filter (\<lambda>item. item \<in> set cs) (listingKeys doc)))"
proof -
  have a: "map chart results = listingKeys doc" if "snd (test_collect w) = Inr (n, results)" for n results
    using test_collect_results[OF that] assms test_results_keys by auto
  have b: "map fst rows = listingKeys doc" if "rows \<in> set (tables (run_test w))" for rows
  proof -
    from tables_run_test[OF that] obtain n rs where
      "snd (test_collect w) = Inr (n, rs)" "rows = test_tableRows rs" by blast
    with a[of n rs] show ?thesis by (simp add: test_tableRows_def comp_def)
  qed
  have c: "map fst rows = listingKeys doc"
    if "rows \<in> set (tables (run_update (w\<lparr>input_parallel := p\<rparr>)))" for p rows
  proof -
    let ?w = "w\<lparr>input_parallel := p\<rparr>"
    from tables_run_update[OF that] obtain d where "snd (update_collect ?w) = Inr (d, rows)" by blast
    from update_collect_rows[OF this] assms have d: "d = doc"
      and r: "if parallelInput ?w then snd (update_parallel ?w doc) = Inr rows
              else snd (update_sequential ?w doc (listingKeys doc) []) = Inr rows"
      by simp_all
    show ?thesis
    proof (cases "parallelInput ?w")
      case True
      with r have "snd (update_parallel ?w doc) = Inr rows" by simp
      from update_parallel_rows[OF this] show ?thesis by (simp add: comp_def)
    next
      case False
      with r have "snd (update_sequential ?w doc (listingKeys doc) []) = Inr rows" by simp
      from update_sequential_rows[OF this] show ?thesis by (simp add: comp_def)
    qed
  qed
  have v: "map fst rows = filter (\<lambda>item. \<not> not_modified (VALIDATE_CHANGED_ONLY w) ch item) (listingKeys doc)
           \<and> (if VALIDATE_CHANGED_ONLY w
                then \<exists>cs. ch = Some cs \<and> detectChangedHelmCharts w (String_env (env_GITHUB_WORKSPACE w)) = Inr cs
                else ch = None)"
    if "snd (validation_collect w) = Inr (Validated d ch rows)" for d ch rows
  proof -
    from validation_collect_rows[OF that] assms have
      l: "snd (validation_loop w doc (VALIDATE_CHANGED_ONLY w) ch (listingKeys doc) []) = Inr rows"
      and c: "if VALIDATE_CHANGED_ONLY w
          then \<exists>cs. ch = Some cs \<and> cs \<noteq> [] \<and> detectChangedHelmCharts w (String_env (env_GITHUB_WORKSPACE w)) = Inr cs
          else ch = None"
      by simp_all
    from validation_loop_rows[OF l] c show ?thesis by (auto simp: comp_def split: if_splits)
  qed
  have d: "map fst rows = listingKeys doc"
    if "\<not> VALIDATE_CHANGED_ONLY w" "rows \<in> set (tables (run_validation w))" for rows
  proof -
    from tables_run_validation[OF that(2)] obtain d ch where
      "snd (validation_collect w) = Inr (Validated d ch rows)" by blast
    from v[OF this] that(1) show ?thesis by (simp add: not_modified_def)
  qed
  have e: "map fst rows = filter (\<lambda>item. item \<in> set cs) (listingKeys doc)"
    if "VALIDATE_CHANGED_ONLY w"
       "detectChangedHelmCharts w (String_env (env_GITHUB_WORKSPACE w)) = Inr cs"
       "rows \<in> set (tables (run_validation w))" for cs rows
  proof -
    from tables_run_validation[OF that(3)] obtain d ch where
      "snd (validation_collect w) = Inr (Validated d ch rows)" by blast
    from v[OF this] that(1,2) show ?thesis by (auto simp: not_modified_def)
  qed
  from a b c d e show ?thesis by blast
qed

theorem result_list_follows_working_set_witness:
  "getListing example_world (String_env (env_GITHUB_WORKSPACE example_world)) = Inr example_listing
   \<and> tables (run_test example_world)
       = [[(''chartA'', icon_check, ''charts/chartA''), (''chartB'', icon_check, ''charts/chartB'')]]
   \<and> tables (run_update (example_world\<lparr>input_parallel := ''true''\<rparr>))
       = [[(''chartA'', icon_check, ''charts/chartA''), (''chartB'', icon_check, ''charts/chartB'')]]
   \<and> tables (run_update (example_world\<lparr>input_parallel := ''false''\<rparr>))
       = [[(''chartA'', icon_check, ''charts/chartA''), (''chartB'', icon_check, ''charts/chartB'')]]
   \<and> map (map fst) (tables (run_update (example_world\<lparr>input_parallel := ''true''\<rparr>)))
       = [listingKeys example_listing]"
proof -
  have h: "getListing example_world (String_env (env_GITHUB_WORKSPACE example_world)) = Inr example_listing"
    by (simp add: example_defs)
  have t: "tables (run_test example_world)
       = [[(''chartA'', icon_check, ''charts/chartA''), (''chartB'', icon_check, ''charts/chartB'')]]"
    by (simp add: example_defs run_eval test_eval test_summary_def test_tableRows_def)
  have p: "tables (run_update (example_world\<lparr>input_parallel := ''true''\<rparr>))
       = [[(''chartA'', icon_check, ''charts/chartA''), (''chartB'', icon_check, ''charts/chartB'')]]"
    by (simp add: example_defs run_eval update_eval)
  have q: "tables (run_update (example_world\<lparr>input_parallel := ''false''\<rparr>))
       = [[(''chartA'', icon_check, ''charts/chartA''), (''chartB'', icon_check, ''charts/chartB'')]]"
    by (simp add: example_defs run_eval update_eval)
  have k: "listingKeys example_listing = [''chartA'', ''chartB'']" by (simp add: example_defs)
  from result_list_follows_working_set[OF h] h t p q k show ?thesis by simp
qed

subsection \<open>Classification of a unit-test outcome\<close>

text \<open>
  C4, as amended. For every chart on which \<open>unittest\<close> is invoked and returns a result:
  exit code 0 gives status \<open>passed\<close> without a reason; exit code \<open>-1\<close> together with the
  standard error text \<open>No tests directory found\<close> gives status \<open>skipped\<close> with reason
  \<open>No tests directory\<close>; every other outcome (a non-zero exit code that is not this
  sentinel pair) gives status \<open>failed\<close> with reason the standard error, or else the
  standard output, or else \<open>Unknown error\<close>.
\<close>

theorem unittest_classification:
  assumes "isFunctionEnabled w (listingYamlDir doc item) helmChartTest"
      and "tool w (unittest_call w doc out item) = Inr result"
  shows "\<exists>r. processChart w doc out item = ([Gate item, Invoke (unittest_call w doc out item)], Inr r)
     \<and> chart r = item \<and> relativePath r = listingYamlRelativePath doc item
     \<and> (exitCode result = 0 \<longrightarrow> status r = passed \<and> reason r = None)
     \<and> (exitCode result = - 1 \<and> stderr result = ''No tests directory found''
          \<longrightarrow> status r = skipped \<and> reason r = Some ''No tests directory'')
     \<and> (exitCode result \<noteq> 0 \<and> \<not> (exitCode result = - 1 \<and> stderr result = ''No tests directory found'')
          \<longrightarrow> status r = failed
              \<and> reason r = Some (if stderr result \<noteq> [] then stderr result
                                  else if stdout result \<noteq> [] then stdout result
                                  else ''Unknown error''))"
  using assms by (simp add: processChart_def Let_def classify_def)

theorem unittest_classification_witness:
  "(\<exists>r. snd (processChart (example_world\<lparr>tool := on_chartA (Inr \<lparr>exitCode = - 1, stdout = [], stderr = ''No tests directory found''\<rparr>)\<rparr>)
              example_listing ''/ws/.helm-test-output'' ''chartA'') = Inr r
        \<and> status r = skipped \<and> reason r = Some ''No tests directory'')
   \<and> (\<exists>r. snd (processChart (example_world\<lparr>tool := on_chartA (Inr \<lparr>exitCode = 2, stdout = ''out'', stderr = []\<rparr>)\<rparr>)
              example_listing ''/ws/.helm-test-output'' ''chartA'') = Inr r
        \<and> status r = failed \<and> reason r = Some ''out'')
   \<and> (\<exists>r. snd (processChart example_world example_listing ''/ws/.helm-test-output'' ''chartA'') = Inr r
        \<and> status r = passed \<and> reason r = None)"
proof -
  let ?w1 = "example_world\<lparr>tool := on_chartA (Inr \<lparr>exitCode = - 1, stdout = [], stderr = ''No tests directory found''\<rparr>)\<rparr>"
  let ?w2 = "example_world\<lparr>tool := on_chartA (Inr \<lparr>exitCode = 2, stdout = ''out'', stderr = []\<rparr>)\<rparr>"
  have e: "isFunctionEnabled ?w1 (listingYamlDir example_listing ''chartA'') helmChartTest"
      "isFunctionEnabled ?w2 (listingYamlDir example_listing ''chartA'') helmChartTest"
      "isFunctionEnabled example_world (listingYamlDir example_listing ''chartA'') helmChartTest"
    by (simp_all add: example_defs)
  have t1: "tool ?w1 (unittest_call ?w1 example_listing ''/ws/.helm-test-output'' ''chartA'')
              = Inr \<lparr>exitCode = - 1, stdout = [], stderr = ''No tests directory found''\<rparr>"
    by (simp add: example_defs unittest_call_def)
  have t2: "tool ?w2 (unittest_call ?w2 example_listing ''/ws/.helm-test-output'' ''chartA'')
              = Inr \<lparr>exitCode = 2, stdout = ''out'', stderr = []\<rparr>"
    by (simp add: example_defs unittest_call_def)
  have t3: "tool example_world (unittest_call example_world example_listing ''/ws/.helm-test-output'' ''chartA'')
              = Inr \<lparr>exitCode = 0, stdout = [], stderr = []\<rparr>"
    by (simp add: example_defs unittest_call_def)
  from unittest_classification[OF e(1) t1] unittest_classification[OF e(2) t2]
       unittest_classification[OF e(3) t3]
  show ?thesis by auto
qed

text \<open>
  C4 as stated fails: the sentinel exit code \<open>-1\<close> alone does not give \<open>skipped\<close>. With
  another standard error text the chart is \<open>failed\<close>.
\<close>

theorem sentinel_exit_code_alone_counterexample:
  "isFunctionEnabled (example_world\<lparr>tool := on_chartA (Inr \<lparr>exitCode = - 1, stdout = [], stderr = ''boom''\<rparr>)\<rparr>)
       (listingYamlDir example_listing ''chartA'') helmChartTest
   \<and> processChart (example_world\<lparr>tool := on_chartA (Inr \<lparr>exitCode = - 1, stdout = [], stderr = ''boom''\<rparr>)\<rparr>)
       example_listing ''/ws/.helm-test-output'' ''chartA''
     = ([Gate ''chartA'', Invoke (Unittest ''/ws/charts/chartA'' ''/ws/.helm-test-output/chartA'' [])],
        Inr \<lparr>chart = ''chartA'', status = failed, reason = Some ''boom'', relativePath = ''charts/chartA''\<rparr>)"
  by (simp add: example_defs processChart_def unittest_call_def test_options_def path_join_def classify_def)

subsection \<open>Sequential and parallel dependency update\<close>

text \<open>
  C5. Whatever the listing and the outcomes of the tool, the dependency-update run yields
  the same result in sequential and in parallel mode: either both collect the same rows
  for the same charts in the same order, or both are interrupted; and the summaries that
  get written are the same.
\<close>

theorem update_modes_same_results:
  "map_sum (\<lambda>t. ()) id (snd (update_collect (w\<lparr>input_parallel := p\<rparr>)))
     = map_sum (\<lambda>t. ()) id (snd (update_collect (w\<lparr>input_parallel := q\<rparr>)))
   \<and> written (run_update (w\<lparr>input_parallel := p\<rparr>)) = written (run_update (w\<lparr>input_parallel := q\<rparr>))
   \<and> tables (run_update (w\<lparr>input_parallel := p\<rparr>)) = tables (run_update (w\<lparr>input_parallel := q\<rparr>))"
proof -
  have c: "map_sum (\<lambda>t. ()) id (snd (update_collect (w\<lparr>input_parallel := p\<rparr>)))
     = map_sum (\<lambda>t. ()) id (snd (update_collect (w\<lparr>input_parallel := q\<rparr>)))"
    by (simp add: update_collect_mode_free update_sequential_input_parallel cong: sum.case_cong)
  have wr: "written (run_update (w\<lparr>input_parallel := p\<rparr>)) = written (run_update (w\<lparr>input_parallel := q\<rparr>))"
    by (simp add: written_run_update_mode_free c cong: sum.case_cong)
  then have "tables (run_update (w\<lparr>input_parallel := p\<rparr>)) = tables (run_update (w\<lparr>input_parallel := q\<rparr>))"
    by (simp add: tables_def)
  with c wr show ?thesis by simp
qed

theorem update_modes_same_results_witness:
  "parallelInput (example_world\<lparr>tool := on_chartA (Inr \<lparr>exitCode = 1, stdout = [], stderr = ''boom''\<rparr>),
                               input_parallel := ''true''\<rparr>)
   \<and> \<not> parallelInput (example_world\<lparr>tool := on_chartA (Inr \<lparr>exitCode = 1, stdout = [], stderr = ''boom''\<rparr>),
                               input_parallel := ''false''\<rparr>)
   \<and> tables (run_update (example_world\<lparr>tool := on_chartA (Inr \<lparr>exitCode = 1, stdout = [], stderr = ''boom''\<rparr>),
                                       input_parallel := ''true''\<rparr>))
       = tables (run_update (example_world\<lparr>tool := on_chartA (Inr \<lparr>exitCode = 1, stdout = [], stderr = ''boom''\<rparr>),
                                       input_parallel := ''false''\<rparr>))
   \<and> tables (run_update (example_world\<lparr>tool := on_chartA (Inr \<lparr>exitCode = 1, stdout = [], stderr = ''boom''\<rparr>),
                                       input_parallel := ''false''\<rparr>))
       = [[(''chartA'', icon_check, ''charts/chartA''), (''chartB'', icon_check, ''charts/chartB'')]]"
proof -
  let ?w = "example_world\<lparr>tool := on_chartA (Inr \<lparr>exitCode = 1, stdout = [], stderr = ''boom''\<rparr>)\<rparr>"
  have p: "parallelInput (?w\<lparr>input_parallel := ''true''\<rparr>)"
    and q: "\<not> parallelInput (?w\<lparr>input_parallel := ''false''\<rparr>)"
    by (simp_all add: parallelInput_def toLowerCase_def lower_char_def)
  have s: "tables (run_update (?w\<lparr>input_parallel := ''false''\<rparr>))
       = [[(''chartA'', icon_check, ''charts/chartA''), (''chartB'', icon_check, ''charts/chartB'')]]"
    by (simp add: example_defs run_eval update_eval)
  from update_modes_same_results[where w = ?w and p = "''true''" and q = "''false''"] p q s show ?thesis by simp
qed

subsection \<open>Disabled charts\<close>

text \<open>
  C6. A chart whose configuration disables the functionality is never handed to the
  external tool, and its result is exactly the disabled one: in the unit-testing run
  \<open>processChart\<close> only consults the gate and returns status \<open>disabled\<close> with the reason
  \<open>Disabled by .ci.config.yaml\<close>; in the validation and dependency-update runs its row
  carries the disabled icon; and in all three runs every tool invocation is on a
  directory for which the gate reports the functionality enabled.
\<close>

theorem disabled_chart_not_invoked:
  assumes "getListing w (String_env (env_GITHUB_WORKSPACE w)) = Inr doc"
  shows "(\<not> isFunctionEnabled w (listingYamlDir doc item) helmChartTest \<longrightarrow>
            processChart w doc out item =
              ([Gate item],
               Inr \<lparr>chart = item, status = disabled, reason = Some ''Disabled by .ci.config.yaml'',
                    relativePath = listingYamlRelativePath doc item\<rparr>))
       \<and> (\<forall>c\<in>set (invocations (run_test w)). isFunctionEnabled w (call_dir c) helmChartTest)
       \<and> (\<forall>c\<in>set (invocations (run_validation w)). isFunctionEnabled w (call_dir c) helmChartValidation)
       \<and> (\<forall>c\<in>set (invocations (run_update w)). isFunctionEnabled w (call_dir c) helmChartDependencyUpdate)
       \<and> (\<forall>n results. snd (test_collect w) = Inr (n, results) \<longrightarrow>
            (\<forall>r\<in>set results. \<not> isFunctionEnabled w (listingYamlDir doc (chart r)) helmChartTest \<longrightarrow>
                status r = disabled \<and> reason r = Some ''Disabled by .ci.config.yaml''))
       \<and> (\<forall>rows\<in>set (tables (run_validation w)). \<forall>row\<in>set rows.
            \<not> isFunctionEnabled w (listingYamlDir doc (fst row)) helmChartValidation \<longrightarrow>
              fst (snd row) = icon_disabled)
       \<and> (\<forall>rows\<in>set (tables (run_update w)). \<forall>row\<in>set rows.
            \<not> isFunctionEnabled w (listingYamlDir doc (fst row)) helmChartDependencyUpdate \<longrightarrow>
              fst (snd row) = icon_disabled)"
proof -
  have a: "\<not> isFunctionEnabled w (listingYamlDir doc item) helmChartTest \<longrightarrow>
            processChart w doc out item =
              ([Gate item],
               Inr \<lparr>chart = item, status = disabled, reason = Some ''Disabled by .ci.config.yaml'',
                    relativePath = listingYamlRelativePath doc item\<rparr>)"
    by (simp add: processChart_def Let_def)
  have b: "\<forall>c\<in>set (invocations (run_test w)). isFunctionEnabled w (call_dir c) helmChartTest"
    using run_test_invocations by blast
  have c: "\<forall>c\<in>set (invocations (run_validation w)). isFunctionEnabled w (call_dir c) helmChartValidation"
    using run_validation_invocations by blast
  have d: "\<forall>c\<in>set (invocations (run_update w)). isFunctionEnabled w (call_dir c) helmChartDependencyUpdate"
    using run_update_invocations by blast
  have e: "status r = disabled \<and> reason r = Some ''Disabled by .ci.config.yaml''"
    if "snd (test_collect w) = Inr (n, results)" "r \<in> set results"
       "\<not> isFunctionEnabled w (listingYamlDir doc (chart r)) helmChartTest" for n results r
  proof -
    from test_collect_results[OF that(1)] assms have
      "snd (test_results w doc (path_join (String_env (env_GITHUB_WORKSPACE w)) ''.helm-test-output'')) = Inr results"
      by simp
    from test_results_mem[OF this that(2)] that(3) show ?thesis by (rule processChart_disabled)
  qed
  have f: "fst (snd row) = icon_disabled"
    if "rows \<in> set (tables (run_validation w))" "row \<in> set rows"
       "\<not> isFunctionEnabled w (listingYamlDir doc (fst row)) helmChartValidation" for rows row
  proof -
    from tables_run_validation[OF that(1)] obtain d ch where
      "snd (validation_collect w) = Inr (Validated d ch rows)" by blast
    from validation_collect_rows[OF this] assms have
      "snd (validation_loop w doc (VALIDATE_CHANGED_ONLY w) ch (listingKeys doc) []) = Inr rows"
      by simp
    from validation_loop_rows[OF this] that(2,3) show ?thesis by auto
  qed
  have g: "fst (snd row) = icon_disabled"
    if "rows \<in> set (tables (run_update w))" "row \<in> set rows"
       "\<not> isFunctionEnabled w (listingYamlDir doc (fst row)) helmChartDependencyUpdate" for rows row
  proof -
    from tables_run_update[OF that(1)] obtain d where "snd (update_collect w) = Inr (d, rows)" by blast
    from update_collect_rows[OF this] assms have
      r: "if parallelInput w then snd (update_parallel w doc) = Inr rows
          else snd (update_sequential w doc (listingKeys doc) []) = Inr rows"
      by simp
    show ?thesis
    proof (cases "parallelInput w")
      case True
      with r have "snd (update_parallel w doc) = Inr rows" by simp
      from update_parallel_rows[OF this] that(2,3) show ?thesis by auto
    next
      case False
      with r have "snd (update_sequential w doc (listingKeys doc) []) = Inr rows" by simp
      from update_sequential_rows[OF this] that(2,3) show ?thesis by auto
    qed
  qed
  from a b c d e f g show ?thesis by blast
qed

theorem disabled_chart_not_invoked_witness:
  "getListing (example_world\<lparr>isFunctionEnabled := (\<lambda>d f. d \<noteq> ''/ws/charts/chartA'')\<rparr>)
     (String_env (env_GITHUB_WORKSPACE (example_world\<lparr>isFunctionEnabled := (\<lambda>d f. d \<noteq> ''/ws/charts/chartA'')\<rparr>)))
     = Inr example_listing
   \<and> \<not> isFunctionEnabled (example_world\<lparr>isFunctionEnabled := (\<lambda>d f. d \<noteq> ''/ws/charts/chartA'')\<rparr>)
         (listingYamlDir example_listing ''chartA'') helmChartTest
   \<and> processChart (example_world\<lparr>isFunctionEnabled := (\<lambda>d f. d \<noteq> ''/ws/charts/chartA'')\<rparr>)
        example_listing ''/ws/.helm-test-output'' ''chartA''
       = ([Gate ''chartA''],
          Inr \<lparr>chart = ''chartA'', status = disabled, reason = Some ''Disabled by .ci.config.yaml'',
               relativePath = ''charts/chartA''\<rparr>)
   \<and> invocations (run_test (example_world\<lparr>isFunctionEnabled := (\<lambda>d f. d \<noteq> ''/ws/charts/chartA'')\<rparr>))
       = [Unittest ''/ws/charts/chartB'' ''/ws/.helm-test-output/chartB'' []]
   \<and> invocations (run_validation (example_world\<lparr>isFunctionEnabled := (\<lambda>d f. d \<noteq> ''/ws/charts/chartA'')\<rparr>))
       = [Template ''/ws/charts/chartB'' [] [''--dependency-update'']]
   \<and> tables (run_validation (example_world\<lparr>isFunctionEnabled := (\<lambda>d f. d \<noteq> ''/ws/charts/chartA'')\<rparr>))
       = [[(''chartA'', icon_disabled, ''charts/chartA''), (''chartB'', icon_check, ''charts/chartB'')]]
   \<and> invocations (run_update (example_world\<lparr>isFunctionEnabled := (\<lambda>d f. d \<noteq> ''/ws/charts/chartA'')\<rparr>))
       = [DependencyUpdate ''/ws/charts/chartB'']"
proof -
  let ?w = "example_world\<lparr>isFunctionEnabled := (\<lambda>d f. d \<noteq> ''/ws/charts/chartA'')\<rparr>"
  have h: "getListing ?w (String_env (env_GITHUB_WORKSPACE ?w)) = Inr example_listing"
    by (simp add: example_defs)
  have n: "\<not> isFunctionEnabled ?w (listingYamlDir example_listing ''chartA'') helmChartTest"
    by (simp add: example_defs)
  have r: "listingYamlRelativePath example_listing ''chartA'' = ''charts/chartA''"
    by (simp add: example_defs)
  have t: "invocations (run_test ?w) = [Unittest ''/ws/charts/chartB'' ''/ws/.helm-test-output/chartB'' []]"
    by (simp add: example_defs run_eval test_eval)
  have v: "invocations (run_validation ?w) = [Template ''/ws/charts/chartB'' [] [''--dependency-update'']]"
    by (simp add: example_defs run_eval validation_eval)
  have vt: "tables (run_validation ?w)
       = [[(''chartA'', icon_disabled, ''charts/chartA''), (''chartB'', icon_check, ''charts/chartB'')]]"
    by (simp add: example_defs run_eval validation_eval)
  have u: "invocations (run_update ?w) = [DependencyUpdate ''/ws/charts/chartB'']"
    by (simp add: example_defs run_eval update_eval)
  from disabled_chart_not_invoked[OF h, of "''chartA''" "''/ws/.helm-test-output''"] h n r t v vt u
  show ?thesis by simp
qed

subsection \<open>Change filtering\<close>

text \<open>
  C7. When change filtering is enabled and the changed set is empty (the workspace check
  has passed and the listing has been loaded), the validation run returns early: it logs
  that no chart was modified and writes the informational summary, consults the gate for
  no chart, invokes the tool for no chart, writes no table and does not call
  \<open>core.setFailed\<close>.
\<close>

theorem no_changes_short_circuit:
  assumes "VALIDATE_CHANGED_ONLY w"
    and "\<And>msg. assertNullOrEmpty (String_env (env_GITHUB_WORKSPACE w)) msg = Inr ()"
    and "getListing w (String_env (env_GITHUB_WORKSPACE w)) = Inr doc"
    and "detectChangedHelmCharts w (String_env (env_GITHUB_WORKSPACE w)) = Inr []"
  shows "run_validation w = Info ''No Helm charts modified in this PR. Skipping validation.''
                              # write_unawaited w no_changes_summary
       \<and> invocations (run_validation w) = []
       \<and> gated (run_validation w) = []
       \<and> tables (run_validation w) = []
       \<and> setFailed_calls (run_validation w) = []
       \<and> infos (run_validation w) = [''No Helm charts modified in this PR. Skipping validation.'']
       \<and> (summary_write w no_changes_summary = Inr () \<longrightarrow>
            written (run_validation w) = [no_changes_summary])"
proof -
  have r: "run_validation w = Info ''No Helm charts modified in this PR. Skipping validation.''
                              # write_unawaited w no_changes_summary"
    using assms
    by (simp add: run_validation_def validation_body_def validation_collect_def Let_def
        bind_io_def call_def catch_handler_def)
  have "invocations (run_validation w) = []" "gated (run_validation w) = []"
    "tables (run_validation w) = []" "setFailed_calls (run_validation w) = []"
    "infos (run_validation w) = [''No Helm charts modified in this PR. Skipping validation.'']"
    "summary_write w no_changes_summary = Inr () \<longrightarrow> written (run_validation w) = [no_changes_summary]"
    by (simp_all add: r write_unawaited_def tables_def doc_tables_no_changes split: sum.splits)
  with r show ?thesis by simp
qed

theorem no_changes_short_circuit_witness:
  "VALIDATE_CHANGED_ONLY (example_world\<lparr>env_INPUT_VALIDATE_CHANGED_ONLY := Some ''true''\<rparr>)
   \<and> detectChangedHelmCharts (example_world\<lparr>env_INPUT_VALIDATE_CHANGED_ONLY := Some ''true''\<rparr>) ''/ws'' = Inr []
   \<and> run_validation (example_world\<lparr>env_INPUT_VALIDATE_CHANGED_ONLY := Some ''true''\<rparr>)
       = [Info ''No Helm charts modified in this PR. Skipping validation.'', Write no_changes_summary]
   \<and> invocations (run_validation (example_world\<lparr>env_INPUT_VALIDATE_CHANGED_ONLY := Some ''true''\<rparr>)) = []
   \<and> setFailed_calls (run_validation (example_world\<lparr>env_INPUT_VALIDATE_CHANGED_ONLY := Some ''true''\<rparr>)) = []"
proof -
  let ?w = "example_world\<lparr>env_INPUT_VALIDATE_CHANGED_ONLY := Some ''true''\<rparr>"
  have ws: "String_env (env_GITHUB_WORKSPACE ?w) = ''/ws''"
    by (simp add: example_defs String_env_def)
  have h1: "VALIDATE_CHANGED_ONLY ?w"
    by (simp add: VALIDATE_CHANGED_ONLY_def toLowerCase_def lower_char_def)
  have h2: "assertNullOrEmpty (String_env (env_GITHUB_WORKSPACE ?w)) msg = Inr ()" for msg
    by (simp add: example_defs String_env_def assertNullOrEmpty_def)
  have h3: "getListing ?w (String_env (env_GITHUB_WORKSPACE ?w)) = Inr example_listing"
    by (simp add: example_defs)
  have h4: "detectChangedHelmCharts ?w (String_env (env_GITHUB_WORKSPACE ?w)) = Inr []"
    by (simp add: example_defs)
  have wr: "write_unawaited ?w no_changes_summary = [Write no_changes_summary]"
    by (simp add: write_unawaited_def example_defs)
  from no_changes_short_circuit[OF h1 h2 h3 h4] h1 h4 ws wr show ?thesis by simp
qed

text \<open>
  C8. When change filtering is enabled and the changed set is not empty, the rows of the
  validation run are those of the listed charts that are in the changed set, in the order
  of the listing; a chart outside the changed set has no row and is never passed to the
  feature gate; and when the run completes, the charts passed to the gate are exactly
  those of the working set, once each, in order.
\<close>

theorem changed_only_working_set:
  assumes "VALIDATE_CHANGED_ONLY w"
    and "getListing w (String_env (env_GITHUB_WORKSPACE w)) = Inr doc"
    and "detectChangedHelmCharts w (String_env (env_GITHUB_WORKSPACE w)) = Inr cs"
    and "cs \<noteq> []"
  shows "(\<forall>rows\<in>set (tables (run_validation w)).
            map fst rows = filter (\<lambda>item. item \<in> set cs) (listingKeys doc)
            \<and> gated (run_validation w) = filter (\<lambda>item. item \<in> set cs) (listingKeys doc))
       \<and> (\<forall>item. item \<notin> set cs \<longrightarrow>
            item \<notin> set (gated (run_validation w))
            \<and> (\<forall>rows\<in>set (tables (run_validation w)). item \<notin> fst ` set rows))"
proof -
  have a: "map fst rows = filter (\<lambda>item. item \<in> set cs) (listingKeys doc)
           \<and> gated (run_validation w) = filter (\<lambda>item. item \<in> set cs) (listingKeys doc)"
    if "rows \<in> set (tables (run_validation w))" for rows
  proof -
    from tables_run_validation[OF that] obtain d ch where
      c: "snd (validation_collect w) = Inr (Validated d ch rows)" by blast
    from validation_collect_rows[OF c] assms have
      l: "snd (validation_loop w doc True (Some cs) (listingKeys doc) []) = Inr rows"
      by auto
    from validation_loop_rows[OF l] have m: "map fst rows = filter (\<lambda>item. item \<in> set cs) (listingKeys doc)"
      by (simp add: not_modified_def comp_def)
    from validation_loop_gated_completed[OF l] have
      g: "gated (fst (validation_loop w doc True (Some cs) (listingKeys doc) []))
            = filter (\<lambda>item. item \<in> set cs) (listingKeys doc)"
      by (simp add: not_modified_def)
    have "gated (run_validation w) = gated (fst (validation_loop w doc True (Some cs) (listingKeys doc) []))"
      using assms l c
      by (cases "assertNullOrEmpty (String_env (env_GITHUB_WORKSPACE w))
                   (''Missing env `'' @ envvars_GITHUB_WORKSPACE @ ''`!'')")
         (auto simp: run_validation_def gated_catch_handler validation_body_def validation_collect_def
            validation_rows_def Let_def fst_bind_io snd_bind_io call_def emit_def gated_append
            await_write_def
            split: sum.splits)
    with g m show ?thesis by simp
  qed
  have b: "item \<notin> set (gated (run_validation w))" if "item \<notin> set cs" for item
    using run_validation_gated[OF assms(1,3)] that by blast
  have c: "item \<notin> fst ` set rows"
    if "item \<notin> set cs" "rows \<in> set (tables (run_validation w))" for item rows
  proof -
    from a[OF that(2)] have "set (map fst rows) \<subseteq> set cs" by auto
    with that(1) show ?thesis by auto
  qed
  from a b c show ?thesis by blast
qed

theorem changed_only_working_set_witness:
  "VALIDATE_CHANGED_ONLY (example_world\<lparr>env_INPUT_VALIDATE_CHANGED_ONLY := Some ''true'',
                                          detectChangedHelmCharts := (\<lambda>ws. Inr [''chartB''])\<rparr>)
   \<and> tables (run_validation (example_world\<lparr>env_INPUT_VALIDATE_CHANGED_ONLY := Some ''true'',
                                            detectChangedHelmCharts := (\<lambda>ws. Inr [''chartB''])\<rparr>))
       = [[(''chartB'', icon_check, ''charts/chartB'')]]
   \<and> gated (run_validation (example_world\<lparr>env_INPUT_VALIDATE_CHANGED_ONLY := Some ''true'',
                                           detectChangedHelmCharts := (\<lambda>ws. Inr [''chartB''])\<rparr>))
       = [''chartB'']
   \<and> ''chartA'' \<notin> set (gated (run_validation (example_world\<lparr>env_INPUT_VALIDATE_CHANGED_ONLY := Some ''true'',
                                           detectChangedHelmCharts := (\<lambda>ws. Inr [''chartB''])\<rparr>)))"
proof -
  let ?w = "example_world\<lparr>env_INPUT_VALIDATE_CHANGED_ONLY := Some ''true'',
                           detectChangedHelmCharts := (\<lambda>ws. Inr [''chartB''])\<rparr>"
  have h1: "VALIDATE_CHANGED_ONLY ?w"
    by (simp add: VALIDATE_CHANGED_ONLY_def toLowerCase_def lower_char_def)
  have h2: "getListing ?w (String_env (env_GITHUB_WORKSPACE ?w)) = Inr example_listing"
    by (simp add: example_defs)
  have h3: "detectChangedHelmCharts ?w (String_env (env_GITHUB_WORKSPACE ?w)) = Inr [''chartB'']"
    by (simp add: example_defs)
  have h4: "[''chartB''] \<noteq> []" by simp
  have t: "tables (run_validation ?w) = [[(''chartB'', icon_check, ''charts/chartB'')]]"
    by (simp add: example_defs run_eval validation_eval)
  have g: "gated (run_validation ?w) = [''chartB'']"
    by (simp add: example_defs run_eval validation_eval)
  have "''chartA'' \<notin> set [''chartB'']" by simp
  with changed_only_working_set[OF h1 h2 h3 h4]
  have a: "''chartA'' \<notin> set (gated (run_validation ?w))" by blast
  from h1 t g a show ?thesis by blast
qed

subsection \<open>Throws that are not errors\<close>

text \<open>
  C10. When the value that reaches the \<open>catch\<close> handler of a run is not an \<open>Error\<close>
  instance, the handler does nothing: \<open>core.setFailed\<close> is not called and no summary has
  been written, in each of the three runs.
\<close>

theorem non_error_throw_is_swallowed:
  "(snd (test_body w) = Inl (NonError v) \<longrightarrow>
      run_test w = fst (test_body w)
      \<and> setFailed_calls (run_test w) = [] \<and> written (run_test w) = [])
   \<and> (snd (update_body w) = Inl (NonError v) \<longrightarrow>
      run_update w = fst (update_body w)
      \<and> setFailed_calls (run_update w) = [] \<and> written (run_update w) = [])
   \<and> (snd (validation_body w) = Inl (NonError v) \<longrightarrow>
      run_validation w = fst (validation_body w)
      \<and> setFailed_calls (run_validation w) = [] \<and> written (run_validation w) = [])"
proof -
  have c: "catch_handler r = fst r" if "snd r = Inl (NonError v)" for r :: "unit io"
    using that by (cases r) (simp add: catch_handler_def)
  have a: "snd (test_body w) = Inl (NonError v) \<longrightarrow>
      run_test w = fst (test_body w)
      \<and> setFailed_calls (run_test w) = [] \<and> written (run_test w) = []"
  proof
    assume h: "snd (test_body w) = Inl (NonError v)"
    from c[OF h] have r: "run_test w = fst (test_body w)" by (simp add: run_test_def)
    from test_body_throw[OF h] show "run_test w = fst (test_body w)
      \<and> setFailed_calls (run_test w) = [] \<and> written (run_test w) = []"
      by (simp add: r)
  qed
  have b: "snd (update_body w) = Inl (NonError v) \<longrightarrow>
      run_update w = fst (update_body w)
      \<and> setFailed_calls (run_update w) = [] \<and> written (run_update w) = []"
  proof
    assume h: "snd (update_body w) = Inl (NonError v)"
    from c[OF h] have r: "run_update w = fst (update_body w)" by (simp add: run_update_def)
    from update_body_throw[OF h] show "run_update w = fst (update_body w)
      \<and> setFailed_calls (run_update w) = [] \<and> written (run_update w) = []"
      by (simp add: r)
  qed
  have d: "snd (validation_body w) = Inl (NonError v) \<longrightarrow>
      run_validation w = fst (validation_body w)
      \<and> setFailed_calls (run_validation w) = [] \<and> written (run_validation w) = []"
  proof
    assume h: "snd (validation_body w) = Inl (NonError v)"
    from c[OF h] have r: "run_validation w = fst (validation_body w)" by (simp add: run_validation_def)
    from validation_body_throw[OF h] show "run_validation w = fst (validation_body w)
      \<and> setFailed_calls (run_validation w) = [] \<and> written (run_validation w) = []"
      by (simp add: r)
  qed
  from a b d show ?thesis by blast
qed

theorem non_error_throw_is_swallowed_witness:
  "snd (test_body (example_world\<lparr>tool := on_chartA (Inl (NonError ''helm not found''))\<rparr>))
     = Inl (NonError ''helm not found'')
   \<and> setFailed_calls (run_test (example_world\<lparr>tool := on_chartA (Inl (NonError ''helm not found''))\<rparr>)) = []
   \<and> written (run_test (example_world\<lparr>tool := on_chartA (Inl (NonError ''helm not found''))\<rparr>)) = []
   \<and> snd (update_body (example_world\<lparr>tool := on_chartA (Inl (NonError ''helm not found''))\<rparr>))
     = Inl (NonError ''helm not found'')
   \<and> setFailed_calls (run_update (example_world\<lparr>tool := on_chartA (Inl (NonError ''helm not found''))\<rparr>)) = []
   \<and> snd (validation_body (example_world\<lparr>tool := on_chartA (Inl (NonError ''helm not found''))\<rparr>))
     = Inl (NonError ''helm not found'')
   \<and> setFailed_calls (run_validation (example_world\<lparr>tool := on_chartA (Inl (NonError ''helm not found''))\<rparr>)) = []
   \<and> setFailed_calls (run_validation (example_world\<lparr>tool := on_chartA (Inl (Error ''helm not found''))\<rparr>))
       = [''helm not found'']"
proof -
  let ?w = "example_world\<lparr>tool := on_chartA (Inl (NonError ''helm not found''))\<rparr>"
  have t: "snd (test_body ?w) = Inl (NonError ''helm not found'')"
    by (simp add: example_defs run_eval test_eval)
  have u: "snd (update_body ?w) = Inl (NonError ''helm not found'')"
    by (simp add: example_defs run_eval update_eval)
  have v: "snd (validation_body ?w) = Inl (NonError ''helm not found'')"
    by (simp add: example_defs run_eval validation_eval)
  have e: "setFailed_calls (run_validation (example_world\<lparr>tool := on_chartA (Inl (Error ''helm not found''))\<rparr>))
       = [''helm not found'']"
    by (simp add: example_defs run_eval validation_eval)
  note th = non_error_throw_is_swallowed[where w = ?w and v = "''helm not found''"]
  from th t have s1: "setFailed_calls (run_test ?w) = []" "written (run_test ?w) = []" by blast+
  from th u have s2: "setFailed_calls (run_update ?w) = []" by blast
  from th v have s3: "setFailed_calls (run_validation ?w) = []" by blast
  from t u v e s1 s2 s3 show ?thesis by blast
qed

subsection \<open>Validation and dependency update have no failed rows\<close>




subsection \<open>The workspace check\<close>

text \<open>
  C9. When the workspace-root variable \<open>GITHUB_WORKSPACE\<close> is missing or empty, each of
  the three runs aborts at the check, before anything else: the only effect is one call
  of \<open>core.setFailed\<close> with the message \<open>Missing env `GITHUB_WORKSPACE`!\<close>, which names
  the missing input; the gate is consulted for no chart, the tool is invoked for no chart,
  and no summary is written.
\<close>

theorem missing_workspace_aborts:
  assumes "env_GITHUB_WORKSPACE w = None \<or> env_GITHUB_WORKSPACE w = Some []"
  shows "run_validation w = [SetFailed (''Missing env `'' @ envvars_GITHUB_WORKSPACE @ ''`!'')]
       \<and> run_update w = [SetFailed (''Missing env `'' @ envvars_GITHUB_WORKSPACE @ ''`!'')]
       \<and> run_test w = [SetFailed (''Missing env `'' @ envvars_GITHUB_WORKSPACE @ ''`!'')]
       \<and> invocations (run_validation w) = [] \<and> invocations (run_update w) = []
       \<and> invocations (run_test w) = []
       \<and> gated (run_validation w) = [] \<and> gated (run_update w) = [] \<and> gated (run_test w) = []
       \<and> written (run_validation w) = [] \<and> written (run_update w) = [] \<and> written (run_test w) = []
       \<and> tables (run_validation w) = [] \<and> tables (run_update w) = [] \<and> tables (run_test w) = []"
proof -
  from assms have
    r: "assertNullOrEmpty (String_env (env_GITHUB_WORKSPACE w))
          (''Missing env `'' @ envvars_GITHUB_WORKSPACE @ ''`!'')
        = Inl (Error (''Missing env `'' @ envvars_GITHUB_WORKSPACE @ ''`!''))"
    by (auto simp: assertNullOrEmpty_def String_env_def)
  have v: "run_validation w = [SetFailed (''Missing env `'' @ envvars_GITHUB_WORKSPACE @ ''`!'')]"
    using r by (simp add: run_validation_def validation_body_def validation_collect_def
        bind_io_def call_def catch_handler_def)
  have u: "run_update w = [SetFailed (''Missing env `'' @ envvars_GITHUB_WORKSPACE @ ''`!'')]"
    using r by (simp add: run_update_def update_body_def update_collect_def
        bind_io_def call_def catch_handler_def)
  have t: "run_test w = [SetFailed (''Missing env `'' @ envvars_GITHUB_WORKSPACE @ ''`!'')]"
    using r by (simp add: run_test_def test_body_def test_collect_def
        bind_io_def call_def catch_handler_def)
  show ?thesis by (simp add: v u t tables_def)
qed

theorem missing_workspace_aborts_witness:
  "env_GITHUB_WORKSPACE (example_world\<lparr>env_GITHUB_WORKSPACE := None\<rparr>) = None
   \<and> run_validation (example_world\<lparr>env_GITHUB_WORKSPACE := None\<rparr>)
       = [SetFailed ''Missing env `GITHUB_WORKSPACE`!'']
   \<and> run_update (example_world\<lparr>env_GITHUB_WORKSPACE := None\<rparr>)
       = [SetFailed ''Missing env `GITHUB_WORKSPACE`!'']
   \<and> run_test (example_world\<lparr>env_GITHUB_WORKSPACE := None\<rparr>)
       = [SetFailed ''Missing env `GITHUB_WORKSPACE`!'']
   \<and> env_GITHUB_WORKSPACE (example_world\<lparr>env_GITHUB_WORKSPACE := Some []\<rparr>) = Some []
   \<and> run_validation (example_world\<lparr>env_GITHUB_WORKSPACE := Some []\<rparr>)
       = [SetFailed ''Missing env `GITHUB_WORKSPACE`!'']
   \<and> invocations (run_validation (example_world\<lparr>env_GITHUB_WORKSPACE := Some []\<rparr>)) = []
   \<and> written (run_validation (example_world\<lparr>env_GITHUB_WORKSPACE := Some []\<rparr>)) = []
   \<and> invocations (run_validation example_world)
       = [Template ''/ws/charts/chartA'' [] [''--dependency-update''],
          Template ''/ws/charts/chartB'' [] [''--dependency-update'']]"
proof -
  let ?n = "example_world\<lparr>env_GITHUB_WORKSPACE := None\<rparr>"
  let ?e = "example_world\<lparr>env_GITHUB_WORKSPACE := Some []\<rparr>"
  have hn: "env_GITHUB_WORKSPACE ?n = None \<or> env_GITHUB_WORKSPACE ?n = Some []" by simp
  have he: "env_GITHUB_WORKSPACE ?e = None \<or> env_GITHUB_WORKSPACE ?e = Some []" by simp
  have m: "''Missing env `'' @ envvars_GITHUB_WORKSPACE @ ''`!'' = ''Missing env `GITHUB_WORKSPACE`!''"
    by (simp add: envvars_GITHUB_WORKSPACE_def)
  have ok: "invocations (run_validation example_world)
       = [Template ''/ws/charts/chartA'' [] [''--dependency-update''],
          Template ''/ws/charts/chartB'' [] [''--dependency-update'']]"
    by (simp add: example_defs run_eval validation_eval)
  have n1: "env_GITHUB_WORKSPACE ?n = None" and e1: "env_GITHUB_WORKSPACE ?e = Some []"
    by simp_all
  from missing_workspace_aborts[OF hn, unfolded m] missing_workspace_aborts[OF he, unfolded m] n1 e1 ok
  show ?thesis by blast
qed

end
